theory Spec2Isabelle
  imports Main
begin

text \<open>
  A model of the request pipeline of the church-directory server: the deletion of an element
  of a nested array of a church document (\<open>routes/dashboardRoutes.ts\<close>), the public listing
  (\<open>controllers/dashboardController.ts\<close>), authentication and the administrator check
  (\<open>middleware/authenticateUser.ts\<close>, \<open>controllers/adminController.ts\<close>) and the validation
  of the signup request (\<open>utils/validationSchemas.ts\<close>, \<open>middleware/validateRequest.ts\<close>).
  The definitions come first, the properties after them.
\<close>

section \<open>JavaScript values and primitives used by the handlers\<close>

text \<open>
  Documents of the church collection and decoded request data are JavaScript values.
  Strings are lists of code units (code units below 256 in this development). A JavaScript
  number that the handlers compute with is an \<open>int option\<close>: \<open>None\<close> is \<open>NaN\<close>.
\<close>

datatype jsval =
    JUndefined
  | JNull
  | JBool bool
  | JNum int
  | JStr string
  | JArr "jsval list"
  | JObj "(string \<times> jsval) list"

type_synonym doc = "(string \<times> jsval) list"

type_synonym jsnum = "int option"

text \<open>White space that \<open>parseInt\<close> and \<open>String.prototype.trim\<close> strip: TAB, LF, VT, FF, CR,
  SP and NBSP.\<close>

definition is_ws :: "char \<Rightarrow> bool" where
  "is_ws c = ((of_char c :: nat) \<in> {9, 10, 11, 12, 13, 32, 160})"

definition is_digit :: "char \<Rightarrow> bool" where
  "is_digit c = (48 \<le> (of_char c :: nat) \<and> (of_char c :: nat) \<le> 57)"

definition digits_value :: "string \<Rightarrow> nat" where
  "digits_value Z = foldl (\<lambda>n c. 10 * n + ((of_char c :: nat) - 48)) 0 Z"

text \<open>\<open>parseInt(inputString, 10)\<close>: skip leading white space, read an optional sign, take the
  longest prefix of decimal digits; no digit gives \<open>NaN\<close>.\<close>

definition parseInt :: "string \<Rightarrow> jsnum" where
  "parseInt inputString =
     (let S = dropWhile is_ws inputString;
          sign = (if S \<noteq> [] \<and> hd S = CHR ''-'' then - 1 else 1);
          S' = (if S \<noteq> [] \<and> (hd S = CHR ''+'' \<or> hd S = CHR ''-'') then tl S else S);
          Z = takeWhile is_digit S'
      in if Z = [] then None else Some (sign * int (digits_value Z)))"

definition isNaN :: "jsnum \<Rightarrow> bool" where
  "isNaN n = (n = None)"

text \<open>Comparisons with \<open>NaN\<close> are false.\<close>

definition js_lt :: "jsnum \<Rightarrow> int \<Rightarrow> bool" where
  "js_lt a b = (case a of None \<Rightarrow> False | Some i \<Rightarrow> i < b)"

definition js_ge :: "jsnum \<Rightarrow> int \<Rightarrow> bool" where
  "js_ge a b = (case a of None \<Rightarrow> False | Some i \<Rightarrow> i \<ge> b)"

text \<open>\<open>Array.prototype.splice(start, deleteCount)\<close>, the array after the call: a \<open>NaN\<close> start
  counts as 0, a negative start counts from the end, and the start is clamped to the array.\<close>

definition splice :: "'a list \<Rightarrow> jsnum \<Rightarrow> int \<Rightarrow> 'a list" where
  "splice xs start deleteCount =
     (let len = int (length xs);
          relativeStart = (case start of None \<Rightarrow> 0 | Some i \<Rightarrow> i);
          actualStart = (if relativeStart < 0 then max (len + relativeStart) 0
                         else min relativeStart len);
          actualDeleteCount = min (max deleteCount 0) (len - actualStart)
      in take (nat actualStart) xs @ drop (nat (actualStart + actualDeleteCount)) xs)"

text \<open>\<open>str.replace(pat, rep)\<close> with a string pattern replaces the first occurrence only.\<close>

fun replace_first :: "string \<Rightarrow> string \<Rightarrow> string \<Rightarrow> string" where
  "replace_first pat rep [] = (if pat = [] then rep else [])"
| "replace_first pat rep (c # cs) =
     (if take (length pat) (c # cs) = pat then rep @ drop (length pat) (c # cs)
      else c # replace_first pat rep cs)"

text \<open>\<open>!v\<close> is true exactly for the falsy values.\<close>

fun truthy :: "jsval \<Rightarrow> bool" where
  "truthy JUndefined = False"
| "truthy JNull = False"
| "truthy (JBool b) = b"
| "truthy (JNum n) = (n \<noteq> 0)"
| "truthy (JStr s) = (s \<noteq> [])"
| "truthy (JArr xs) = True"
| "truthy (JObj kvs) = True"

text \<open>\<open>doc[k]\<close> on a document: the stored value, \<open>undefined\<close> for a missing field.\<close>

definition get_field :: "doc \<Rightarrow> string \<Rightarrow> jsval" where
  "get_field d k = (case map_of d k of None \<Rightarrow> JUndefined | Some v \<Rightarrow> v)"

definition set_field :: "string \<Rightarrow> jsval \<Rightarrow> doc \<Rightarrow> doc" where
  "set_field k v d = map (\<lambda>(k', v'). if k' = k then (k', v) else (k', v')) d"

text \<open>\<open>v.k\<close> on a value that is not \<open>undefined\<close> or \<open>null\<close> (for own data properties).\<close>

definition member :: "jsval \<Rightarrow> string \<Rightarrow> jsval" where
  "member v k = (case v of JObj kvs \<Rightarrow> get_field kvs k | _ \<Rightarrow> JUndefined)"

definition isArray :: "jsval \<Rightarrow> bool" where
  "isArray v = (case v of JArr xs \<Rightarrow> True | _ \<Rightarrow> False)"

section \<open>The church collection and the response of one request\<close>

text \<open>
  A church document as the model of \<open>models/Space.ts\<close> presents it once read (\<open>ChurchDoc\<close>,
  \<open>ChurchSchema\<close>). The five array paths always hold arrays: an array path that the stored
  document lacks is read as the empty array. \<open>principal\<close> and \<open>securities\<close> are of type
  \<open>Object\<close> and hold any value, \<open>undefined\<close> when absent. The identifier is the ObjectId
  in lower-case hexadecimal, \<open>version\<close> is the version key \<open>__v\<close>. The elements of
  \<open>oldServices\<close>, \<open>liveServices\<close> and \<open>songs\<close> are objects, kept as values.
\<close>

record church =
  church_id :: string
  name :: string
  principal :: jsval
  location :: string
  church_image :: string
  banner :: "string list"
  securities :: jsval
  oldServices :: "jsval list"
  liveServices :: "jsval list"
  gallery :: "string list"
  songs :: "jsval list"
  logo :: string
  church_user :: "string option"
  createdAt :: int
  version :: nat

text \<open>\<open>church[k]\<close>, the value of a path of the document by its name.\<close>

definition field_value :: "church \<Rightarrow> string \<Rightarrow> jsval" where
  "field_value c k =
     (if k = ''_id'' then JStr (church_id c)
      else if k = ''name'' then JStr (name c)
      else if k = ''principal'' then principal c
      else if k = ''location'' then JStr (location c)
      else if k = ''image'' then JStr (church_image c)
      else if k = ''banner'' then JArr (map JStr (banner c))
      else if k = ''securities'' then securities c
      else if k = ''oldServices'' then JArr (oldServices c)
      else if k = ''liveServices'' then JArr (liveServices c)
      else if k = ''gallery'' then JArr (map JStr (gallery c))
      else if k = ''songs'' then JArr (songs c)
      else if k = ''logo'' then JStr (logo c)
      else if k = ''user'' then (case church_user c of None \<Rightarrow> JUndefined | Some u \<Rightarrow> JStr u)
      else if k = ''createdAt'' then JNum (createdAt c)
      else if k = ''__v'' then JNum (int (version c))
      else JUndefined)"

text \<open>The document as an object with its fields, as stored and as serialised.\<close>

definition toObject :: "church \<Rightarrow> doc" where
  "toObject c =
     map (\<lambda>k. (k, field_value c k))
       [''_id'', ''name'', ''principal'', ''location'', ''image'', ''banner'', ''securities'',
        ''oldServices'', ''liveServices'', ''gallery'', ''songs'', ''logo'', ''user'',
        ''createdAt'', ''__v'']"

text \<open>\<open>church[k].splice(start, 1)\<close> when \<open>church[k]\<close> is an array: the array is changed in
  place, in the document held in memory.\<close>

definition splice_field :: "string \<Rightarrow> jsnum \<Rightarrow> church \<Rightarrow> church" where
  "splice_field k start c =
     (if k = ''banner'' then c\<lparr>banner := splice (banner c) start 1\<rparr>
      else if k = ''oldServices'' then c\<lparr>oldServices := splice (oldServices c) start 1\<rparr>
      else if k = ''liveServices'' then c\<lparr>liveServices := splice (liveServices c) start 1\<rparr>
      else if k = ''gallery'' then c\<lparr>gallery := splice (gallery c) start 1\<rparr>
      else if k = ''songs'' then c\<lparr>songs := splice (songs c) start 1\<rparr>
      else if k = ''principal''
      then (case principal c of JArr xs \<Rightarrow> c\<lparr>principal := JArr (splice xs start 1)\<rparr> | _ \<Rightarrow> c)
      else if k = ''securities''
      then (case securities c of JArr xs \<Rightarrow> c\<lparr>securities := JArr (splice xs start 1)\<rparr> | _ \<Rightarrow> c)
      else c)"

text \<open>
  The arrays of the five array paths are tracked: a splice marks the path as modified. A
  value under a path of type \<open>Object\<close> is a plain value: changing it in place marks nothing
  (the handlers never call \<open>markModified\<close>).
\<close>

definition array_paths :: "string list" where
  "array_paths = [''banner'', ''oldServices'', ''liveServices'', ''gallery'', ''songs'']"

definition modified_by_splice :: "string \<Rightarrow> string list" where
  "modified_by_splice k = (if k \<in> set array_paths then [k] else [])"

text \<open>
  The validation \<open>save()\<close> runs first: every path declared \<open>required\<close> is checked. A required
  string must not be empty, a required \<open>Object\<close> or reference must be present, and a
  required array path is satisfied by any array, the empty one too (the rule of the
  library since its version 5; the typed \<open>mongoose.model<ChurchDoc>\<close> of the source is of
  these versions).
\<close>

definition present :: "jsval \<Rightarrow> bool" where
  "present v = (v \<noteq> JUndefined \<and> v \<noteq> JNull)"

definition validate :: "church \<Rightarrow> bool" where
  "validate c =
     (name c \<noteq> [] \<and> present (principal c) \<and> location c \<noteq> [] \<and> church_image c \<noteq> []
      \<and> present (securities c) \<and> logo c \<noteq> [] \<and> church_user c \<noteq> None)"

text \<open>
  What a handler can raise: the cast of an identifier fails, the validation of \<open>save()\<close>
  fails, or another error (a \<open>TypeError\<close>, or the error of a response sent twice); these are
  the cases the error handler tells apart. \<open>FindById\<close> is a query for a document and \<open>Save\<close>
  a write to the store, with the identifier of the document and the paths written.
\<close>

datatype exn = CastError | ValidationError | UnexpectedError

datatype event = FindById string | Save string "string list"

datatype body = ErrorBody string | MessageBody string | Envelope string

record hstate =
  churches :: "church list"
  sent :: "(nat \<times> body) option"
  log :: "event list"

type_synonym result = "exn option \<times> hstate"

text \<open>
  \<open>findById\<close> casts the string to an ObjectId first: a string of 24 hexadecimal digits is
  one, whatever the case of its letters; a string that cannot be cast makes the query raise
  a \<open>CastError\<close>. Otherwise the document of that identifier, or null.
\<close>

definition is_hex :: "char \<Rightarrow> bool" where
  "is_hex c =
     (let n = (of_char c :: nat)
      in (48 \<le> n \<and> n \<le> 57) \<or> (97 \<le> n \<and> n \<le> 102) \<or> (65 \<le> n \<and> n \<le> 70))"

definition to_lower :: "char \<Rightarrow> char" where
  "to_lower c =
     (let n = (of_char c :: nat) in if 65 \<le> n \<and> n \<le> 90 then char_of (n + 32) else c)"

definition castObjectId :: "string \<Rightarrow> string option" where
  "castObjectId str =
     (if length str = 24 \<and> list_all is_hex str then Some (map to_lower str) else None)"

definition findById :: "church list \<Rightarrow> string \<Rightarrow> exn + church option" where
  "findById coll i =
     (case castObjectId i of
        None \<Rightarrow> Inl CastError
      | Some oid \<Rightarrow> Inr (find (\<lambda>c. church_id c = oid) coll))"

definition ChurchModel_findById :: "string \<Rightarrow> hstate \<Rightarrow> (exn + church option) \<times> hstate" where
  "ChurchModel_findById i s = (findById (churches s) i, s\<lparr>log := log s @ [FindById i]\<rparr>)"

text \<open>
  \<open>church.save()\<close> for a document read by \<open>findById\<close>, given the paths marked modified
  since. A document that fails the validation raises and nothing is written. With no modified
  path nothing is sent to the store. Otherwise the modified paths are set in the stored
  document and its version key is incremented.
\<close>

definition copy_path :: "string \<Rightarrow> church \<Rightarrow> church \<Rightarrow> church" where
  "copy_path k c stored =
     (if k = ''banner'' then stored\<lparr>banner := banner c\<rparr>
      else if k = ''oldServices'' then stored\<lparr>oldServices := oldServices c\<rparr>
      else if k = ''liveServices'' then stored\<lparr>liveServices := liveServices c\<rparr>
      else if k = ''gallery'' then stored\<lparr>gallery := gallery c\<rparr>
      else if k = ''songs'' then stored\<lparr>songs := songs c\<rparr>
      else stored)"

definition save :: "church \<Rightarrow> string list \<Rightarrow> hstate \<Rightarrow> result" where
  "save c paths s =
     (if \<not> validate c then (Some ValidationError, s)
      else if paths = [] then (None, s)
      else (None,
            s\<lparr>churches :=
                 map (\<lambda>stored. if church_id stored = church_id c
                                then (foldr (\<lambda>k. copy_path k c) paths stored)
                                       \<lparr>version := Suc (version stored)\<rparr>
                                else stored) (churches s),
              log := log s @ [Save (church_id c) paths]\<rparr>))"

text \<open>
  \<open>res.status(code).json(body)\<close>: the first call of a request sends the response; a call after
  the response was sent raises (the headers can no longer be set), and the exception reaches
  \<open>catchAsync\<close>.
\<close>

definition json :: "nat \<Rightarrow> body \<Rightarrow> hstate \<Rightarrow> result" where
  "json code b s =
     (case sent s of None \<Rightarrow> (None, s\<lparr>sent := Some (code, b)\<rparr>) | Some r \<Rightarrow> (Some UnexpectedError, s))"

text \<open>Sequencing: the rest of the handler runs unless an exception was raised.\<close>

definition andThen :: "result \<Rightarrow> (hstate \<Rightarrow> result) \<Rightarrow> result" where
  "andThen r f = (case fst r of None \<Rightarrow> f (snd r) | Some e \<Rightarrow> r)"

definition index_of_param :: "string option \<Rightarrow> jsnum" where
  "index_of_param indexStr =
     (case indexStr of None \<Rightarrow> None | Some str \<Rightarrow> if str = [] then None else parseInt str)"

text \<open>
  \<open>catchAsync\<close> passes what the handler raises to the global error handler
  (\<open>middleware/errorHandler.ts\<close>), which answers a cast error and a validation error with 400
  and status \<open>fail\<close>, and any other error with 500 and status \<open>error\<close>, in production and
  in development alike (the two differ in the message and the details sent).
\<close>

definition globalErrorHandler :: "exn \<Rightarrow> hstate \<Rightarrow> result" where
  "globalErrorHandler err s =
     (case err of
        CastError \<Rightarrow> json 400 (Envelope ''fail'') s
      | ValidationError \<Rightarrow> json 400 (Envelope ''fail'') s
      | UnexpectedError \<Rightarrow> json 500 (Envelope ''error'') s)"

definition catchAsync :: "(hstate \<Rightarrow> result) \<Rightarrow> hstate \<Rightarrow> result" where
  "catchAsync fn s =
     (case fn s of (None, s') \<Rightarrow> (None, s') | (Some err, s') \<Rightarrow> globalErrorHandler err s')"

section \<open>Deletion of one element of a nested array\<close>

definition invalid_index_message :: "string \<Rightarrow> string" where
  "invalid_index_message indexParam =
     ''Invalid '' @ replace_first ''Index'' '''' indexParam @ '' index''"

definition deleteNestedItem ::
  "string \<Rightarrow> string option \<Rightarrow> string \<Rightarrow> string \<Rightarrow> hstate \<Rightarrow> result" where
  "deleteNestedItem churchId indexStr arrayField indexParam s0 =
     (let index = index_of_param indexStr;
          r1 = (if isNaN index then json 400 (ErrorBody (invalid_index_message indexParam)) s0
                else (None, s0))
      in andThen r1 (\<lambda>s1.
           let (found, s2) = ChurchModel_findById churchId s1 in
           case found of
             Inl err \<Rightarrow> (Some err, s2)
           | Inr None \<Rightarrow> json 404 (ErrorBody ''Church not found'') s2
           | Inr (Some church) \<Rightarrow>
               (case field_value church arrayField of
                  JArr array \<Rightarrow>
                    if js_lt index 0 \<or> js_ge index (int (length array))
                    then json 400 (ErrorBody (invalid_index_message indexParam)) s2
                    else andThen
                           (save (splice_field arrayField index church)
                              (modified_by_splice arrayField) s2)
                           (json 200
                              (MessageBody (butlast arrayField @ '' item deleted successfully'')))
                | _ \<Rightarrow> json 500 (ErrorBody ''Internal server error (invalid field type)'') s2)))"

text \<open>The four routes that use the generic function.\<close>

definition delete_gallery :: "string \<Rightarrow> string option \<Rightarrow> hstate \<Rightarrow> result" where
  "delete_gallery churchId imageIndex = deleteNestedItem churchId imageIndex ''gallery'' ''imageIndex''"

definition delete_past_service :: "string \<Rightarrow> string option \<Rightarrow> hstate \<Rightarrow> result" where
  "delete_past_service churchId serviceIndex =
     deleteNestedItem churchId serviceIndex ''oldServices'' ''serviceIndex''"

definition delete_song :: "string \<Rightarrow> string option \<Rightarrow> hstate \<Rightarrow> result" where
  "delete_song churchId songIndex = deleteNestedItem churchId songIndex ''songs'' ''songIndex''"

definition delete_live :: "string \<Rightarrow> string option \<Rightarrow> hstate \<Rightarrow> result" where
  "delete_live churchId liveIndex = deleteNestedItem churchId liveIndex ''liveServices'' ''liveIndex''"

text \<open>
  The deacon and trustee routes reach their array through \<open>church.securities\<close>. The two
  handlers have the same text up to the name of the array and the wording of the messages,
  which are the parameters \<open>field\<close>, \<open>Noun\<close> and \<open>noun\<close> here.

  When \<open>securities\<close> is falsy or does not hold an array, the 400 response is sent and the
  handler goes on, and the statements that follow cannot complete: reading \<open>.length\<close> of
  \<open>undefined\<close> raises, a second response raises, and \<open>.splice\<close> of a value that is not
  an array is not callable. That path therefore ends in an exception before \<open>save()\<close>.

  The array is a value inside \<open>securities\<close>, a path of type \<open>Object\<close>: the splice changes the
  document in memory and marks no path, so \<open>save()\<close> validates and then writes nothing.
\<close>

definition set_member :: "jsval \<Rightarrow> string \<Rightarrow> jsval \<Rightarrow> jsval" where
  "set_member v k x = (case v of JObj kvs \<Rightarrow> JObj (set_field k x kvs) | _ \<Rightarrow> v)"

definition delete_securities_item ::
  "string \<Rightarrow> string \<Rightarrow> string \<Rightarrow> string \<Rightarrow> string option \<Rightarrow> hstate \<Rightarrow> result" where
  "delete_securities_item field Noun noun churchId indexStr s0 =
     (let index = index_of_param indexStr;
          r1 = (if isNaN index then json 400 (ErrorBody (''Invalid '' @ noun @ '' index'')) s0
                else (None, s0))
      in andThen r1 (\<lambda>s1.
           let (found, s2) = ChurchModel_findById churchId s1 in
           case found of
             Inl err \<Rightarrow> (Some err, s2)
           | Inr None \<Rightarrow> json 404 (ErrorBody ''Church not found'') s2
           | Inr (Some church) \<Rightarrow>
               (let r3 = (if \<not> truthy (securities church)
                             \<or> \<not> isArray (member (securities church) field)
                          then json 400 (ErrorBody (Noun @ ''s data not found or invalid'')) s2
                          else (None, s2))
                in andThen r3 (\<lambda>s3.
                     case member (securities church) field of
                       JArr array \<Rightarrow>
                         (let r4 = (if js_lt index 0 \<or> js_ge index (int (length array))
                                    then json 400 (ErrorBody (''Invalid '' @ noun @ '' index'')) s3
                                    else (None, s3))
                          in andThen r4 (\<lambda>s4.
                               andThen
                                 (save (church\<lparr>securities :=
                                                 set_member (securities church) field
                                                   (JArr (splice array index 1))\<rparr>) [] s4)
                                 (json 200 (MessageBody (Noun @ '' deleted successfully'')))))
                     | _ \<Rightarrow> (Some UnexpectedError, s3)))))"

definition delete_deacon :: "string \<Rightarrow> string option \<Rightarrow> hstate \<Rightarrow> result" where
  "delete_deacon churchId deaconIndex =
     delete_securities_item ''deacons'' ''Deacon'' ''deacon'' churchId deaconIndex"

definition delete_trustee :: "string \<Rightarrow> string option \<Rightarrow> hstate \<Rightarrow> result" where
  "delete_trustee churchId trusteeIndex =
     delete_securities_item ''trustees'' ''Trustee'' ''trustee'' churchId trusteeIndex"

text \<open>The banner route answers 501 and touches nothing.\<close>

definition delete_banner :: "string \<Rightarrow> string option \<Rightarrow> hstate \<Rightarrow> result" where
  "delete_banner churchId imageIndex s0 =
     json 501 (MessageBody ''Banner deletion not implemented yet'') s0"

text \<open>A request starts with no response sent; the collection is what the store holds.\<close>

definition run :: "(hstate \<Rightarrow> result) \<Rightarrow> church list \<Rightarrow> result" where
  "run handler coll = handler \<lparr>churches = coll, sent = None, log = []\<rparr>"

definition saves :: "event list \<Rightarrow> (string \<times> string list) list" where
  "saves evs = concat (map (\<lambda>e. case e of Save i paths \<Rightarrow> [(i, paths)] | FindById i \<Rightarrow> []) evs)"

section \<open>The public listing\<close>

text \<open>\<open>str.split(sep)\<close> for a one-character separator.\<close>

fun split_on :: "char \<Rightarrow> string \<Rightarrow> string list" where
  "split_on sep [] = [[]]"
| "split_on sep (c # cs) =
     (if c = sep then [] # split_on sep cs
      else (case split_on sep cs of [] \<Rightarrow> [[c]] | w # ws \<Rightarrow> (c # w) # ws))"

text \<open>\<open>Model.find({}, projection)\<close> with an inclusive projection string: every document of
  the collection, restricted to the fields the string names.\<close>

definition select_fields :: "string \<Rightarrow> doc \<Rightarrow> doc" where
  "select_fields projection d = filter (\<lambda>(k, v). k \<in> set (split_on CHR '' '' projection)) d"

definition ChurchModel_find :: "doc list \<Rightarrow> string \<Rightarrow> doc list" where
  "ChurchModel_find coll projection = map (select_fields projection) coll"

definition getPublicChurchList :: "doc list \<Rightarrow> doc list" where
  "getPublicChurchList coll = ChurchModel_find coll ''_id name''"

section \<open>Authentication and the administrator check\<close>

record user =
  user_id :: string
  firstName :: string
  lastName :: string
  email :: string
  role :: string
  churchSelection :: "string option"
  admin :: bool

text \<open>An \<open>AppError\<close> carries its message and status code (its \<open>status\<close> and
  \<open>isOperational\<close> fields are derived from them by the constructor).\<close>

record AppError =
  message :: string
  statusCode :: nat

text \<open>
  What \<open>jwt.verify(token, secret)\<close> does with a token is a parameter of the model. It returns
  the decoded payload, a string or an object whose \<open>id\<close> claim, when present, is a string
  (\<open>TokenPayload\<close>), or it throws. In the jsonwebtoken library \<open>TokenExpiredError\<close> and
  \<open>NotBeforeError\<close> are subclasses of \<open>JsonWebTokenError\<close>, which is what
  \<open>instanceof\<close> tests.
\<close>

datatype jwt_error = JsonWebTokenError | TokenExpiredError | NotBeforeError | OtherError

datatype decoded = DecodedString string | DecodedPayload "string option" "(string \<times> jsval) list"

datatype verify_result = Verified decoded | Throws jwt_error

definition instanceof_JsonWebTokenError :: "jwt_error \<Rightarrow> bool" where
  "instanceof_JsonWebTokenError err =
     (err = JsonWebTokenError \<or> err = TokenExpiredError \<or> err = NotBeforeError)"

definition instanceof_TokenExpiredError :: "jwt_error \<Rightarrow> bool" where
  "instanceof_TokenExpiredError err = (err = TokenExpiredError)"

datatype auth_event = JwtVerify string | UserFindById string

record req_user =
  ru_id :: string
  ru_email :: string

definition startsWith :: "string \<Rightarrow> string \<Rightarrow> bool" where
  "startsWith str p = (take (length p) str = p)"

definition User_findById :: "user list \<Rightarrow> string \<Rightarrow> user option" where
  "User_findById users i = find (\<lambda>u. user_id u = i) users"

text \<open>Step 1 of \<open>authenticateUser\<close>: the token is the second piece of the header split at
  spaces, when the header starts with \<open>Bearer\<close>; otherwise it stays undefined.\<close>

definition header_token :: "string option \<Rightarrow> string option" where
  "header_token authorization =
     (case authorization of
        None \<Rightarrow> None
      | Some h \<Rightarrow>
          if h \<noteq> [] \<and> startsWith h ''Bearer''
          then (let parts = split_on CHR '' '' h in if 1 < length parts then Some (parts ! 1) else None)
          else None)"

definition verify_failure :: "jwt_error \<Rightarrow> AppError" where
  "verify_failure err =
     (if instanceof_JsonWebTokenError err
      then \<lparr>message = ''Invalid token. Please log in again.'', statusCode = 401\<rparr>
      else if instanceof_TokenExpiredError err
      then \<lparr>message = ''Your token has expired. Please log in again.'', statusCode = 401\<rparr>
      else \<lparr>message = ''Token verification failed.'', statusCode = 401\<rparr>)"

text \<open>\<open>Inl\<close> is \<open>next(error)\<close>, \<open>Inr\<close> is \<open>next()\<close> with \<open>req.user\<close> set. The second
  component lists the verifications and store reads made, in order.\<close>

definition authenticateUser ::
  "(string \<Rightarrow> verify_result) \<Rightarrow> user list \<Rightarrow> string option \<Rightarrow> (AppError + req_user) \<times> auth_event list" where
  "authenticateUser verify users authorization =
     (case header_token authorization of
        None \<Rightarrow>
          (Inl \<lparr>message = ''You are not logged in. Please log in to get access.'', statusCode = 401\<rparr>, [])
      | Some token \<Rightarrow>
          if token = []
          then (Inl \<lparr>message = ''You are not logged in. Please log in to get access.'',
                     statusCode = 401\<rparr>, [])
          else
            (case verify token of
               Throws err \<Rightarrow> (Inl (verify_failure err), [JwtVerify token])
             | Verified (DecodedString str) \<Rightarrow>
                 (Inl \<lparr>message = ''Invalid token payload.'', statusCode = 401\<rparr>, [JwtVerify token])
             | Verified (DecodedPayload None claims) \<Rightarrow>
                 (Inl \<lparr>message = ''Invalid token payload.'', statusCode = 401\<rparr>, [JwtVerify token])
             | Verified (DecodedPayload (Some i) claims) \<Rightarrow>
                 (case User_findById users i of
                    None \<Rightarrow>
                      (Inl \<lparr>message = ''The user belonging to this token no longer exists.'',
                            statusCode = 401\<rparr>, [JwtVerify token, UserFindById i])
                  | Some currentUser \<Rightarrow>
                      (Inr \<lparr>ru_id = user_id currentUser, ru_email = email currentUser\<rparr>,
                       [JwtVerify token, UserFindById i]))))"

definition isAdmin :: "user list \<Rightarrow> req_user option \<Rightarrow> (AppError + unit) \<times> auth_event list" where
  "isAdmin users req_user =
     (case req_user of
        None \<Rightarrow> (Inl \<lparr>message = ''Authentication required.'', statusCode = 401\<rparr>, [])
      | Some ru \<Rightarrow>
          if ru_id ru = []
          then (Inl \<lparr>message = ''Authentication required.'', statusCode = 401\<rparr>, [])
          else
            (case User_findById users (ru_id ru) of
               None \<Rightarrow> (Inl \<lparr>message = ''User not found.'', statusCode = 401\<rparr>, [UserFindById (ru_id ru)])
             | Some u \<Rightarrow>
                 if \<not> admin u
                 then (Inl \<lparr>message = ''You do not have permission to perform this action.'',
                            statusCode = 403\<rparr>, [UserFindById (ru_id ru)])
                 else (Inr (), [UserFindById (ru_id ru)])))"

text \<open>The admin router runs \<open>authenticateUser\<close>, then \<open>isAdmin\<close>, before any handler.\<close>

definition admin_router_gate ::
  "(string \<Rightarrow> verify_result) \<Rightarrow> user list \<Rightarrow> string option \<Rightarrow> AppError + unit" where
  "admin_router_gate verify users authorization =
     (case fst (authenticateUser verify users authorization) of
        Inl e \<Rightarrow> Inl e
      | Inr ru \<Rightarrow> fst (isAdmin users (Some ru)))"

text \<open>\<open>User.findByIdAndUpdate(userId, { admin: true }, { new: true })\<close>: the updated user, if
  there is one, and the collection afterwards.\<close>

fun findByIdAndUpdate_admin :: "user list \<Rightarrow> string \<Rightarrow> user option \<times> user list" where
  "findByIdAndUpdate_admin [] i = (None, [])"
| "findByIdAndUpdate_admin (u # us) i =
     (if user_id u = i then (Some (u\<lparr>admin := True\<rparr>), u\<lparr>admin := True\<rparr> # us)
      else (case findByIdAndUpdate_admin us i of (r, us') \<Rightarrow> (r, u # us')))"

text \<open>\<open>approveUser\<close>: the approval e-mail is sent on a best-effort basis and does not change
  the outcome.\<close>

definition approveUser :: "user list \<Rightarrow> string \<Rightarrow> (AppError + user) \<times> user list" where
  "approveUser users userId =
     (case findByIdAndUpdate_admin users userId of
        (None, users') \<Rightarrow> (Inl \<lparr>message = ''No user found with that ID'', statusCode = 404\<rparr>, users')
      | (Some u, users') \<Rightarrow> (Inr u, users'))"

text \<open>A dashboard route guarded by \<open>authenticateUser\<close>: the handler runs only when the
  middleware calls \<open>next()\<close>.\<close>

datatype route_result = Rejected AppError | Handled result

definition authenticated_route ::
  "(string \<Rightarrow> verify_result) \<Rightarrow> user list \<Rightarrow> string option \<Rightarrow> (hstate \<Rightarrow> result) \<Rightarrow> church list
     \<Rightarrow> route_result" where
  "authenticated_route verify users authorization handler coll =
     (case fst (authenticateUser verify users authorization) of
        Inl e \<Rightarrow> Rejected e
      | Inr ru \<Rightarrow> Handled (run handler coll))"

section \<open>Validation of the signup request\<close>

text \<open>
  \<open>signupSchema\<close> is written with the combinators of the validation library; each combinator
  used is modelled by what it does to an input: the status of the parse (\<open>valid\<close>, \<open>dirty\<close>:
  issues were found and parsing went on, \<open>aborted\<close>: the value has the wrong type), the
  parsed value and the issues, in the order they are found. An object is aborted when one of
  its fields is; a refinement is checked unless the value it refines is aborted.
  The pattern an e-mail address has to match is the parameter \<open>is_email\<close>.
\<close>

datatype zstatus = Valid | Dirty | Aborted

record issue =
  issue_path :: "string list"
  issue_message :: string

type_synonym zresult = "zstatus \<times> jsval \<times> issue list"

fun typeName :: "jsval \<Rightarrow> string" where
  "typeName JUndefined = ''undefined''"
| "typeName JNull = ''null''"
| "typeName (JBool b) = ''boolean''"
| "typeName (JNum n) = ''number''"
| "typeName (JStr s) = ''string''"
| "typeName (JArr xs) = ''array''"
| "typeName (JObj kvs) = ''object''"

definition zod_string :: "string option \<Rightarrow> string list \<Rightarrow> jsval \<Rightarrow> zresult" where
  "zod_string required_error p v =
     (case v of
        JStr s \<Rightarrow> (Valid, v, [])
      | JUndefined \<Rightarrow>
          (Aborted, v,
           [\<lparr>issue_path = p,
             issue_message = (case required_error of None \<Rightarrow> ''Required'' | Some m \<Rightarrow> m)\<rparr>])
      | _ \<Rightarrow>
          (Aborted, v,
           [\<lparr>issue_path = p, issue_message = ''Expected string, received '' @ typeName v\<rparr>]))"

text \<open>A check on a string that passed the type test: a failing check adds its issue and
  makes the status dirty.\<close>

definition zod_check :: "(string \<Rightarrow> bool) \<Rightarrow> string \<Rightarrow> string list \<Rightarrow> zresult \<Rightarrow> zresult" where
  "zod_check ok msg p r =
     (case r of
        (st, v, iss) \<Rightarrow>
          if st = Aborted then r
          else (case v of
                  JStr s \<Rightarrow>
                    if ok s then r
                    else (Dirty, v, iss @ [\<lparr>issue_path = p, issue_message = msg\<rparr>])
                | _ \<Rightarrow> r))"

definition zod_min :: "nat \<Rightarrow> string \<Rightarrow> string list \<Rightarrow> zresult \<Rightarrow> zresult" where
  "zod_min n msg p r = zod_check (\<lambda>s. n \<le> length s) msg p r"

definition zod_email :: "(string \<Rightarrow> bool) \<Rightarrow> string \<Rightarrow> string list \<Rightarrow> zresult \<Rightarrow> zresult" where
  "zod_email is_email msg p r = zod_check is_email msg p r"

definition trim :: "string \<Rightarrow> string" where
  "trim s = rev (dropWhile is_ws (rev (dropWhile is_ws s)))"

definition zod_trim :: "zresult \<Rightarrow> zresult" where
  "zod_trim r =
     (case r of
        (st, v, iss) \<Rightarrow>
          if st = Aborted then r
          else (case v of JStr s \<Rightarrow> (st, JStr (trim s), iss) | _ \<Rightarrow> r))"

definition zod_optional :: "(string list \<Rightarrow> jsval \<Rightarrow> zresult) \<Rightarrow> string list \<Rightarrow> jsval \<Rightarrow> zresult" where
  "zod_optional inner p v = (if v = JUndefined then (Valid, JUndefined, []) else inner p v)"

fun joinValues :: "string list \<Rightarrow> string" where
  "joinValues [] = []"
| "joinValues [v] = [CHR 0x27] @ v @ [CHR 0x27]"
| "joinValues (v # vs) = [CHR 0x27] @ v @ [CHR 0x27] @ '' | '' @ joinValues vs"

definition zod_enum :: "string list \<Rightarrow> string \<Rightarrow> string \<Rightarrow> string list \<Rightarrow> jsval \<Rightarrow> zresult" where
  "zod_enum vals required_error invalid_type_error p v =
     (case v of
        JStr s \<Rightarrow>
          if s \<in> set vals then (Valid, v, [])
          else (Aborted, v,
                [\<lparr>issue_path = p,
                  issue_message = ''Invalid enum value. Expected '' @ joinValues vals @
                                  '', received '' @ [CHR 0x27] @ s @ [CHR 0x27]\<rparr>])
      | JUndefined \<Rightarrow> (Aborted, v, [\<lparr>issue_path = p, issue_message = required_error\<rparr>])
      | _ \<Rightarrow> (Aborted, v, [\<lparr>issue_path = p, issue_message = invalid_type_error\<rparr>]))"

definition merge_status :: "zstatus list \<Rightarrow> zstatus" where
  "merge_status sts =
     (if Aborted \<in> set sts then Aborted else if Dirty \<in> set sts then Dirty else Valid)"

text \<open>\<open>z.object(shape)\<close>: every field of the shape is parsed, in the order of the shape, and
  all the issues are kept.\<close>

definition zod_object ::
  "(string \<times> (string list \<Rightarrow> jsval \<Rightarrow> zresult)) list \<Rightarrow> string list \<Rightarrow> jsval \<Rightarrow> zresult" where
  "zod_object shape p v =
     (case v of
        JObj kvs \<Rightarrow>
          (let rs = map (\<lambda>(k, schema). (k, schema (p @ [k]) (get_field kvs k))) shape
           in (merge_status (map (\<lambda>(k, r). fst r) rs),
               JObj (map (\<lambda>(k, r). (k, fst (snd r))) rs),
               concat (map (\<lambda>(k, r). snd (snd r)) rs)))
      | JUndefined \<Rightarrow> (Aborted, v, [\<lparr>issue_path = p, issue_message = ''Required''\<rparr>])
      | _ \<Rightarrow>
          (Aborted, v,
           [\<lparr>issue_path = p, issue_message = ''Expected object, received '' @ typeName v\<rparr>]))"

definition zod_refine :: "(jsval \<Rightarrow> bool) \<Rightarrow> string \<Rightarrow> string list \<Rightarrow> string list \<Rightarrow> zresult \<Rightarrow> zresult" where
  "zod_refine check msg rel p r =
     (case r of
        (st, v, iss) \<Rightarrow>
          if st = Aborted then r
          else if check v then r
          else (Dirty, v, iss @ [\<lparr>issue_path = p @ rel, issue_message = msg\<rparr>]))"

text \<open>The predicate of the refinement: pastors and IT staff must select a church.\<close>

definition church_selection_rule :: "jsval \<Rightarrow> bool" where
  "church_selection_rule data =
     (if member data ''role'' = JStr ''pastor'' \<or> member data ''role'' = JStr ''IT''
      then truthy (member data ''churchSelection'') \<and>
           (case member data ''churchSelection'' of JStr s \<Rightarrow> length (trim s) > 0 | _ \<Rightarrow> False)
      else True)"

definition signup_body_shape ::
  "(string \<Rightarrow> bool) \<Rightarrow> (string \<times> (string list \<Rightarrow> jsval \<Rightarrow> zresult)) list" where
  "signup_body_shape is_email =
     [(''firstName'', \<lambda>q x. zod_min 1 ''First name cannot be empty'' q
                             (zod_string (Some ''First name is required'') q x)),
      (''lastName'', \<lambda>q x. zod_min 1 ''Last name cannot be empty'' q
                            (zod_string (Some ''Last name is required'') q x)),
      (''email'', \<lambda>q x. zod_email is_email ''Invalid email address'' q
                         (zod_string (Some ''Email is required'') q x)),
      (''password'', \<lambda>q x. zod_min 8 ''Password must be at least 8 characters long'' q
                            (zod_string (Some ''Password is required'') q x)),
      (''language'', zod_enum [''en'', ''fr''] ''Language is required''
                       (''Language must be either '' @ [CHR 0x27] @ ''en'' @ [CHR 0x27] @
                        '' or '' @ [CHR 0x27] @ ''fr'' @ [CHR 0x27])),
      (''role'', zod_enum [''user'', ''pastor'', ''IT''] ''Role is required''
                   ''Role must be one of: user, pastor, IT''),
      (''churchSelection'', zod_optional (\<lambda>q x. zod_trim (zod_string None q x)))]"

definition signup_body_schema :: "(string \<Rightarrow> bool) \<Rightarrow> string list \<Rightarrow> jsval \<Rightarrow> zresult" where
  "signup_body_schema is_email p v =
     zod_refine church_selection_rule
       ''Church selection is required for pastors and IT.'' [''churchSelection''] p
       (zod_object (signup_body_shape is_email) p v)"

definition signupSchema :: "(string \<Rightarrow> bool) \<Rightarrow> jsval \<Rightarrow> zresult" where
  "signupSchema is_email input = zod_object [(''body'', signup_body_schema is_email)] [] input"

text \<open>\<open>validateRequest(schema)\<close>: \<open>Inr\<close> is \<open>next()\<close>, \<open>Inl\<close> is \<open>next(error)\<close> with the
  error the parse threw, which holds every issue found. (The parse of these schemas throws
  nothing else, so the branch for other errors is not taken.)\<close>

datatype validation_error = ZodError "issue list"

definition validateRequest ::
  "(jsval \<Rightarrow> zresult) \<Rightarrow> jsval \<Rightarrow> jsval \<Rightarrow> jsval \<Rightarrow> validation_error + unit" where
  "validateRequest schema body query params =
     (case schema (JObj [(''body'', body), (''query'', query), (''params'', params)]) of
        (Valid, v, iss) \<Rightarrow> Inr ()
      | (st, v, iss) \<Rightarrow> Inl (ZodError iss))"

text \<open>The signup route, once the upload middleware has read the form: the controller, a
  parameter here, runs only after \<open>next()\<close>; it
  receives the request body and the user collection and returns its answer and the
  collection afterwards.\<close>

definition signup_route ::
  "(string \<Rightarrow> bool) \<Rightarrow> (jsval \<Rightarrow> user list \<Rightarrow> 'r \<times> user list) \<Rightarrow> jsval \<Rightarrow> user list
     \<Rightarrow> (validation_error + 'r) \<times> user list" where
  "signup_route is_email signup body users =
     (case validateRequest (signupSchema is_email) body (JObj []) (JObj []) of
        Inl e \<Rightarrow> (Inl e, users)
      | Inr u \<Rightarrow> (case signup body users of (r, users') \<Rightarrow> (Inr r, users')))"

text \<open>Three conditions on a request body, used to state what the schema guarantees: the
  church selection is missing or blank, the other fields have the types the schema declares,
  and the other fields also pass their format checks.\<close>

definition blank_selection :: "jsval \<Rightarrow> bool" where
  "blank_selection v = (case v of JUndefined \<Rightarrow> True | JStr s \<Rightarrow> trim s = [] | _ \<Rightarrow> False)"

definition is_string :: "jsval \<Rightarrow> bool" where
  "is_string v = (case v of JStr s \<Rightarrow> True | _ \<Rightarrow> False)"

definition declared_types :: "doc \<Rightarrow> bool" where
  "declared_types kvs =
     (is_string (get_field kvs ''firstName'') \<and> is_string (get_field kvs ''lastName'')
      \<and> is_string (get_field kvs ''email'') \<and> is_string (get_field kvs ''password'')
      \<and> get_field kvs ''language'' \<in> {JStr ''en'', JStr ''fr''})"

definition well_formed_fields :: "(string \<Rightarrow> bool) \<Rightarrow> doc \<Rightarrow> bool" where
  "well_formed_fields is_email kvs =
     ((case get_field kvs ''firstName'' of JStr s \<Rightarrow> 1 \<le> length s | _ \<Rightarrow> False)
      \<and> (case get_field kvs ''lastName'' of JStr s \<Rightarrow> 1 \<le> length s | _ \<Rightarrow> False)
      \<and> (case get_field kvs ''email'' of JStr s \<Rightarrow> is_email s | _ \<Rightarrow> False)
      \<and> (case get_field kvs ''password'' of JStr s \<Rightarrow> 8 \<le> length s | _ \<Rightarrow> False)
      \<and> get_field kvs ''language'' \<in> {JStr ''en'', JStr ''fr''})"

section \<open>Example data\<close>

definition example_id :: string where
  "example_id = ''507f1f77bcf86cd799439011''"

definition example_church :: church where
  "example_church =
     \<lparr>church_id = example_id,
      name = ''Grace Chapel'',
      principal = JObj [(''pastor'', JStr ''John Doe'')],
      location = ''Kinshasa'',
      church_image = ''https://img.example/church.png'',
      banner = [''https://img.example/banner.png''],
      securities =
        JObj [(''deacons'', JArr [JStr ''d1'', JStr ''d2'']), (''trustees'', JArr [JStr ''t1''])],
      oldServices = [JObj [(''title'', JStr ''Easter'')]],
      liveServices = [JObj [(''title'', JStr ''Sunday'')]],
      gallery = [''https://img.example/1.png''],
      songs = [JStr ''a'', JStr ''b'', JStr ''c''],
      logo = ''https://img.example/logo.png'',
      church_user = Some ''64b7f0c2a1d3e4f5a6b7c8d9'',
      createdAt = 1700000000000,
      version = 0\<rparr>"

text \<open>A church whose \<open>securities\<close> holds no arrays.\<close>

definition example_church_bare :: church where
  "example_church_bare = example_church\<lparr>securities := JObj []\<rparr>"

definition example_user :: user where
  "example_user =
     \<lparr>user_id = ''64b7f0c2a1d3e4f5a6b7c8d9'', firstName = ''Ann'', lastName = ''Lee'',
      email = ''ann@example.org'', role = ''pastor'', churchSelection = Some ''Grace Chapel'',
      admin = False\<rparr>"

definition example_signup :: doc where
  "example_signup =
     [(''firstName'', JStr ''Ann''), (''lastName'', JStr ''Lee''),
      (''email'', JStr ''ann@example.org''), (''password'', JStr ''correct horse''),
      (''language'', JStr ''en''), (''role'', JStr ''pastor''),
      (''churchSelection'', JStr ''   '')]"

definition example_signup_user :: doc where
  "example_signup_user =
     [(''firstName'', JStr ''Ann''), (''lastName'', JStr ''Lee''),
      (''email'', JStr ''ann@example.org''), (''password'', JStr ''correct horse''),
      (''language'', JStr ''en''), (''role'', JStr ''user''),
      (''churchSelection'', JStr ''   '')]"

section \<open>Properties of the nested deletion\<close>

lemma parseInt_Some_nonempty: "parseInt idx = Some i \<Longrightarrow> idx \<noteq> []"
  by (cases idx) (simp_all add: parseInt_def)

lemma index_of_param_Some: "parseInt idx = Some i \<Longrightarrow> index_of_param (Some idx) = Some i"
  by (auto simp: index_of_param_def dest: parseInt_Some_nonempty)

lemma splice_in_range:
  "0 \<le> i \<Longrightarrow> i < int (length xs) \<Longrightarrow> splice xs (Some i) 1 = take (nat i) xs @ drop (Suc (nat i)) xs"
proof -
  assume a: "0 \<le> i" "i < int (length xs)"
  then have "nat (i + 1) = Suc (nat i)" by simp
  with a show ?thesis by (simp add: splice_def Let_def)
qed

lemma nth_removed:
  "i < length xs \<Longrightarrow> j < length xs - 1 \<Longrightarrow>
     (take i xs @ drop (Suc i) xs) ! j = (if j < i then xs ! j else xs ! Suc j)"
  by (auto simp: nth_append min_def)

lemma array_path_cases:
  "k \<in> set array_paths \<Longrightarrow>
     k = ''banner'' \<or> k = ''oldServices'' \<or> k = ''liveServices'' \<or> k = ''gallery'' \<or> k = ''songs''"
  by (simp add: array_paths_def)

lemma splice_map: "splice (map f xs) start n = map f (splice xs start n)"
  by (simp add: splice_def Let_def take_map drop_map)

lemma findById_found:
  "findById coll i = Inr (Some c) \<Longrightarrow>
     castObjectId i = Some (church_id c) \<and> find (\<lambda>x. church_id x = church_id c) coll = Some c"
  by (auto simp: findById_def find_Some_iff split: option.splits)

lemma find_map_preserve:
  assumes "find P coll = Some c" and "\<And>x. P (g x) = P x"
  shows "find P (map g coll) = Some (g c)"
  using assms by (induction coll) (auto split: if_splits)

lemma church_id_splice_field: "church_id (splice_field k start c) = church_id c"
  by (simp add: splice_field_def split: jsval.splits)

lemma validate_splice_field:
  "k \<in> set array_paths \<Longrightarrow> validate (splice_field k start c) = validate c"
  by (drule array_path_cases, elim disjE) (simp_all add: splice_field_def validate_def)

lemma copy_path_splice_field:
  "k \<in> set array_paths \<Longrightarrow> copy_path k (splice_field k start c) c = splice_field k start c"
  by (drule array_path_cases, elim disjE) (simp_all add: splice_field_def copy_path_def)

lemma field_value_splice_field:
  "k \<in> set array_paths \<Longrightarrow> field_value c k = JArr xs \<Longrightarrow>
     field_value (splice_field k start c) k = JArr (splice xs start 1)"
  by (drule array_path_cases, elim disjE)
     (auto simp add: splice_field_def field_value_def splice_map)

lemma field_value_splice_field_other:
  "k \<in> set array_paths \<Longrightarrow> k' \<noteq> k \<Longrightarrow>
     field_value (splice_field k start c) k' = field_value c k'"
  by (drule array_path_cases, elim disjE) (simp_all add: splice_field_def field_value_def)

lemma field_value_version:
  "k \<noteq> ''__v'' \<Longrightarrow> field_value (c\<lparr>version := v\<rparr>) k = field_value c k"
  by (simp add: field_value_def)

lemma allow_listed_array_path:
  "k \<in> {''gallery'', ''songs'', ''oldServices'', ''liveServices''} \<Longrightarrow> k \<in> set array_paths"
  by (auto simp: array_paths_def)

subsection \<open>Removal at a valid index\<close>

lemma deleteNestedItem_in_range:
  assumes found: "findById coll churchId = Inr (Some church)"
      and arr: "field_value church arrayField = JArr xs"
      and path: "arrayField \<in> set array_paths"
      and valid: "validate church"
      and idx: "parseInt idx = Some i"
      and lo: "0 \<le> i" and hi: "i < int (length xs)"
  shows "run (deleteNestedItem churchId (Some idx) arrayField indexParam) coll =
           (None,
            \<lparr>churches =
               map (\<lambda>stored. if church_id stored = church_id church
                              then (copy_path arrayField (splice_field arrayField (Some i) church) stored)
                                     \<lparr>version := Suc (version stored)\<rparr>
                              else stored) coll,
             sent = Some (200, MessageBody (butlast arrayField @ '' item deleted successfully'')),
             log = [FindById churchId, Save (church_id church) [arrayField]]\<rparr>)"
proof -
  have ip: "index_of_param (Some idx) = Some i" using idx by (rule index_of_param_Some)
  have v: "validate (splice_field arrayField (Some i) church)"
    using path valid by (simp add: validate_splice_field)
  show ?thesis
    using found arr lo hi path v
    by (simp add: run_def deleteNestedItem_def ip isNaN_def andThen_def
        ChurchModel_findById_def js_lt_def js_ge_def json_def save_def modified_by_splice_def
        church_id_splice_field)
qed

lemma stored_after_removal:
  assumes found: "findById coll churchId = Inr (Some church)"
      and path: "arrayField \<in> set array_paths"
  shows "findById
           (map (\<lambda>stored. if church_id stored = church_id church
                           then (copy_path arrayField (splice_field arrayField start church) stored)
                                  \<lparr>version := Suc (version stored)\<rparr>
                           else stored) coll) churchId
         = Inr (Some ((splice_field arrayField start church)\<lparr>version := Suc (version church)\<rparr>))"
proof -
  define g where "g = (\<lambda>stored. if church_id stored = church_id church
                           then (copy_path arrayField (splice_field arrayField start church) stored)
                                  \<lparr>version := Suc (version stored)\<rparr>
                           else stored)"
  have cast: "castObjectId churchId = Some (church_id church)"
    and f: "find (\<lambda>x. church_id x = church_id church) coll = Some church"
    using findById_found [OF found] by simp_all
  have keep: "\<And>x. (church_id (g x) = church_id church) = (church_id x = church_id church)"
    by (auto simp: g_def copy_path_def)
  have "find (\<lambda>x. church_id x = church_id church) (map g coll) = Some (g church)"
    using f keep by (rule find_map_preserve)
  moreover have "g church = (splice_field arrayField start church)\<lparr>version := Suc (version church)\<rparr>"
    using path by (simp add: g_def copy_path_splice_field)
  ultimately show ?thesis
    unfolding g_def by (simp add: findById_def cast)
qed

text \<open>
  A stored document that lacks a path its schema requires is not written: \<open>save()\<close> raises
  the validation error, which the error handler answers with 400. The church records of the
  claims below are the documents that have the required paths, \<open>validate\<close>.
\<close>

lemma deleteNestedItem_invalid_document:
  assumes found: "findById coll churchId = Inr (Some church)"
      and arr: "field_value church arrayField = JArr xs"
      and path: "arrayField \<in> set array_paths"
      and invalid: "\<not> validate church"
      and idx: "parseInt idx = Some i"
      and lo: "0 \<le> i" and hi: "i < int (length xs)"
  shows "run (deleteNestedItem churchId (Some idx) arrayField indexParam) coll =
           (Some ValidationError, \<lparr>churches = coll, sent = None, log = [FindById churchId]\<rparr>)"
proof -
  have ip: "index_of_param (Some idx) = Some i" using idx by (rule index_of_param_Some)
  have v: "\<not> validate (splice_field arrayField (Some i) church)"
    using path invalid by (simp add: validate_splice_field)
  show ?thesis
    using found arr lo hi v
    by (simp add: run_def deleteNestedItem_def ip isNaN_def andThen_def
        ChurchModel_findById_def js_lt_def js_ge_def json_def save_def)
qed

text \<open>
  Claim C3. For a church record in the store (a document that has the paths its schema
  requires) whose allow-listed field holds an array of length \<open>n\<close>, and an index string that
  parses to \<open>i\<close> with \<open>0 \<le> i < n\<close>, the generic deletion answers 200 and writes to the
  store exactly once, the one path. The stored document then differs from the one read only
  in that field and in its version key: the field holds the array without its element at
  position \<open>i\<close>, the elements before \<open>i\<close> keep their place and the later ones move one
  place to the left.
\<close>

theorem nested_deletion_removes_indexed_element:
  assumes field: "arrayField \<in> {''gallery'', ''songs'', ''oldServices'', ''liveServices''}"
      and found: "findById coll churchId = Inr (Some church)"
      and valid: "validate church"
      and arr: "field_value church arrayField = JArr xs"
      and idx: "parseInt idx = Some i"
      and lo: "0 \<le> i" and hi: "i < int (length xs)"
  shows "let ys = take (nat i) xs @ drop (Suc (nat i)) xs;
             church' = (splice_field arrayField (Some i) church)\<lparr>version := Suc (version church)\<rparr>;
             r = run (deleteNestedItem churchId (Some idx) arrayField indexParam) coll
         in fst r = None
            \<and> sent (snd r) = Some (200, MessageBody (butlast arrayField @ '' item deleted successfully''))
            \<and> saves (log (snd r)) = [(church_id church, [arrayField])]
            \<and> findById (churches (snd r)) churchId = Inr (Some church')
            \<and> field_value church' arrayField = JArr ys
            \<and> length ys + 1 = length xs
            \<and> (\<forall>j < length ys. ys ! j = (if j < nat i then xs ! j else xs ! Suc j))
            \<and> (\<forall>k. k \<noteq> arrayField \<and> k \<noteq> ''__v'' \<longrightarrow> field_value church' k = field_value church k)"
proof -
  define ys where "ys = take (nat i) xs @ drop (Suc (nat i)) xs"
  define church' where
    "church' = (splice_field arrayField (Some i) church)\<lparr>version := Suc (version church)\<rparr>"
  define r where "r = run (deleteNestedItem churchId (Some idx) arrayField indexParam) coll"
  have path: "arrayField \<in> set array_paths" using field by (rule allow_listed_array_path)
  have nv: "arrayField \<noteq> ''__v''" using field by auto
  have run: "r = (None,
      \<lparr>churches =
         map (\<lambda>stored. if church_id stored = church_id church
                        then (copy_path arrayField (splice_field arrayField (Some i) church) stored)
                               \<lparr>version := Suc (version stored)\<rparr>
                        else stored) coll,
       sent = Some (200, MessageBody (butlast arrayField @ '' item deleted successfully'')),
       log = [FindById churchId, Save (church_id church) [arrayField]]\<rparr>)"
    unfolding r_def using found arr path valid idx lo hi by (rule deleteNestedItem_in_range)
  have sp: "splice xs (Some i) 1 = ys" unfolding ys_def using lo hi by (rule splice_in_range)
  have c1: "fst r = None" by (simp add: run)
  have c2: "sent (snd r) = Some (200, MessageBody (butlast arrayField @ '' item deleted successfully''))"
    by (simp add: run)
  have c3: "saves (log (snd r)) = [(church_id church, [arrayField])]" by (simp add: run saves_def)
  have c4: "findById (churches (snd r)) churchId = Inr (Some church')"
    unfolding church'_def using stored_after_removal [OF found path] by (simp add: run)
  have c5: "field_value church' arrayField = JArr ys"
    unfolding church'_def using field_value_splice_field [OF path arr, of "Some i"] nv
    by (simp add: field_value_version sp)
  have n: "nat i < length xs" using lo hi by simp
  have c6: "length ys + 1 = length xs" using n by (simp add: ys_def min_def)
  have c7: "\<forall>j < length ys. ys ! j = (if j < nat i then xs ! j else xs ! Suc j)"
    using n c6 by (simp add: ys_def nth_removed)
  have c8: "\<forall>k. k \<noteq> arrayField \<and> k \<noteq> ''__v'' \<longrightarrow> field_value church' k = field_value church k"
    unfolding church'_def using path
    by (simp add: field_value_version field_value_splice_field_other)
  show ?thesis
    using c1 c2 c3 c4 c5 c6 c7 c8
    unfolding Let_def ys_def[symmetric] church'_def[symmetric] r_def[symmetric]
    by blast
qed

theorem nested_deletion_removes_indexed_element_witness:
  "''songs'' \<in> {''gallery'', ''songs'', ''oldServices'', ''liveServices''}
   \<and> findById [example_church] example_id = Inr (Some example_church)
   \<and> validate example_church
   \<and> field_value example_church ''songs'' = JArr [JStr ''a'', JStr ''b'', JStr ''c'']
   \<and> parseInt ''1'' = Some 1
   \<and> fst (run (delete_song example_id (Some ''1'')) [example_church]) = None
   \<and> sent (snd (run (delete_song example_id (Some ''1'')) [example_church]))
       = Some (200, MessageBody ''song item deleted successfully'')
   \<and> findById (churches (snd (run (delete_song example_id (Some ''1'')) [example_church]))) example_id
       = Inr (Some (example_church\<lparr>songs := [JStr ''a'', JStr ''c''], version := 1\<rparr>))
   \<and> saves (log (snd (run (delete_song example_id (Some ''1'')) [example_church])))
       = [(example_id, [''songs''])]"
proof -
  have h1: "''songs'' \<in> {''gallery'', ''songs'', ''oldServices'', ''liveServices''}" by simp
  have h2: "findById [example_church] example_id = Inr (Some example_church)" by code_simp
  have h3: "validate example_church" by code_simp
  have h4: "field_value example_church ''songs'' = JArr [JStr ''a'', JStr ''b'', JStr ''c'']"
    by code_simp
  have h5: "parseInt ''1'' = Some 1" by code_simp
  have h6: "(0::int) \<le> 1" by simp
  have h7: "(1::int) < int (length [JStr ''a'', JStr ''b'', JStr ''c''])" by simp
  have sp: "splice_field ''songs'' (Some 1) example_church
              = example_church\<lparr>songs := [JStr ''a'', JStr ''c'']\<rparr>"
    by (simp add: splice_field_def splice_def example_church_def)
  have id: "church_id example_church = example_id" by (simp add: example_church_def)
  have ver: "version example_church = 0" by (simp add: example_church_def)
  show ?thesis
    using h1 h2 h3 h4 h5
      nested_deletion_removes_indexed_element
        [where indexParam = "''songIndex''", OF h1 h2 h3 h4 h5 h6 h7]
    by (simp add: Let_def delete_song_def sp id ver)
qed

subsection \<open>Repeating a deletion\<close>

lemma deleteNestedItem_out_of_range:
  assumes found: "findById coll churchId = Inr (Some church)"
      and arr: "field_value church arrayField = JArr xs"
      and idx: "parseInt idx = Some i"
      and out: "i < 0 \<or> int (length xs) \<le> i"
  shows "run (deleteNestedItem churchId (Some idx) arrayField indexParam) coll =
           (None, \<lparr>churches = coll,
                   sent = Some (400, ErrorBody (invalid_index_message indexParam)),
                   log = [FindById churchId]\<rparr>)"
proof -
  have ip: "index_of_param (Some idx) = Some i" using idx by (rule index_of_param_Some)
  show ?thesis
    using found arr out
    by (auto simp add: run_def deleteNestedItem_def ip isNaN_def andThen_def
        ChurchModel_findById_def js_lt_def js_ge_def json_def)
qed

text \<open>
  Claim C8. The deletion is not idempotent. On a church record (a document that has the
  paths its schema requires), after a successful removal at index \<open>i\<close>, the same request
  sent again either
  succeeds and removes the element that followed the removed one (it now stands at position
  \<open>i\<close>), or, when the array has shrunk to length \<open>i\<close>, answers 400 with the invalid-index
  message, writes nothing and leaves the store as it is. In both cases the store and response
  after the second request differ from those after the first.
\<close>

theorem nested_deletion_not_idempotent:
  assumes field: "arrayField \<in> {''gallery'', ''songs'', ''oldServices'', ''liveServices''}"
      and found: "findById coll churchId = Inr (Some church)"
      and valid: "validate church"
      and arr: "field_value church arrayField = JArr xs"
      and idx: "parseInt idx = Some i"
      and lo: "0 \<le> i" and hi: "i < int (length xs)"
  shows "let h = deleteNestedItem churchId (Some idx) arrayField indexParam;
             ys = take (nat i) xs @ drop (Suc (nat i)) xs;
             c1 = (splice_field arrayField (Some i) church)\<lparr>version := Suc (version church)\<rparr>;
             c2 = (splice_field arrayField (Some i) c1)\<lparr>version := Suc (version c1)\<rparr>;
             r1 = run h coll;
             r2 = run h (churches (snd r1))
         in sent (snd r1) = Some (200, MessageBody (butlast arrayField @ '' item deleted successfully''))
            \<and> (i < int (length ys) \<longrightarrow>
               sent (snd r2) = Some (200, MessageBody (butlast arrayField @ '' item deleted successfully''))
               \<and> findById (churches (snd r2)) churchId = Inr (Some c2)
               \<and> field_value c2 arrayField = JArr (take (nat i) ys @ drop (Suc (nat i)) ys)
               \<and> ys ! nat i = xs ! Suc (nat i))
            \<and> (int (length ys) \<le> i \<longrightarrow>
               sent (snd r2) = Some (400, ErrorBody (invalid_index_message indexParam))
               \<and> churches (snd r2) = churches (snd r1)
               \<and> saves (log (snd r2)) = [])
            \<and> (churches (snd r2), sent (snd r2)) \<noteq> (churches (snd r1), sent (snd r1))"
proof -
  define h where "h = deleteNestedItem churchId (Some idx) arrayField indexParam"
  define ys where "ys = take (nat i) xs @ drop (Suc (nat i)) xs"
  define church' where
    "church' = (splice_field arrayField (Some i) church)\<lparr>version := Suc (version church)\<rparr>"
  define r1 where "r1 = run h coll"
  define r2 where "r2 = run h (churches (snd r1))"
  have path: "arrayField \<in> set array_paths" using field by (rule allow_listed_array_path)
  have nv: "arrayField \<noteq> ''__v''" using field by auto
  have sp: "splice xs (Some i) 1 = ys" unfolding ys_def using lo hi by (rule splice_in_range)
  have run1: "r1 = (None,
      \<lparr>churches =
         map (\<lambda>stored. if church_id stored = church_id church
                        then (copy_path arrayField (splice_field arrayField (Some i) church) stored)
                               \<lparr>version := Suc (version stored)\<rparr>
                        else stored) coll,
       sent = Some (200, MessageBody (butlast arrayField @ '' item deleted successfully'')),
       log = [FindById churchId, Save (church_id church) [arrayField]]\<rparr>)"
    unfolding r1_def h_def using found arr path valid idx lo hi by (rule deleteNestedItem_in_range)
  have found1: "findById (churches (snd r1)) churchId = Inr (Some church')"
    unfolding church'_def using stored_after_removal [OF found path] by (simp add: run1)
  have arr1: "field_value church' arrayField = JArr ys"
    unfolding church'_def using field_value_splice_field [OF path arr, of "Some i"] nv
    by (simp add: field_value_version sp)
  have valid1: "validate church'"
    unfolding church'_def using path valid validate_splice_field [of arrayField "Some i" church]
    by (simp add: validate_def)
  have n: "nat i < length xs" using lo hi by simp
  have len: "length ys + 1 = length xs" using n by (simp add: ys_def min_def)
  have sent1: "sent (snd r1) = Some (200, MessageBody (butlast arrayField @ '' item deleted successfully''))"
    by (simp add: run1)
  show ?thesis
  proof (cases "i < int (length ys)")
    case True
    define zs where "zs = take (nat i) ys @ drop (Suc (nat i)) ys"
    define church'' where
      "church'' = (splice_field arrayField (Some i) church')\<lparr>version := Suc (version church')\<rparr>"
    have sp2: "splice ys (Some i) 1 = zs" unfolding zs_def using lo True by (rule splice_in_range)
    have run2: "r2 = (None,
        \<lparr>churches =
           map (\<lambda>stored. if church_id stored = church_id church'
                          then (copy_path arrayField (splice_field arrayField (Some i) church') stored)
                                 \<lparr>version := Suc (version stored)\<rparr>
                          else stored) (churches (snd r1)),
         sent = Some (200, MessageBody (butlast arrayField @ '' item deleted successfully'')),
         log = [FindById churchId, Save (church_id church') [arrayField]]\<rparr>)"
      unfolding r2_def h_def using found1 arr1 path valid1 idx lo True
      by (rule deleteNestedItem_in_range)
    have found2: "findById (churches (snd r2)) churchId = Inr (Some church'')"
      unfolding church''_def using stored_after_removal [OF found1 path] by (simp add: run2)
    have arr2: "field_value church'' arrayField = JArr zs"
      unfolding church''_def using field_value_splice_field [OF path arr1, of "Some i"] nv
      by (simp add: field_value_version sp2)
    have "nat i < length ys" using lo True by simp
    then have lz: "length zs + 1 = length ys" by (simp add: zs_def min_def)
    have "church'' \<noteq> church'" using arr1 arr2 lz by auto
    then have diff: "churches (snd r2) \<noteq> churches (snd r1)" using found1 found2 by auto
    have nth: "ys ! nat i = xs ! Suc (nat i)"
      using n len \<open>nat i < length ys\<close> by (simp add: ys_def nth_append min_def)
    have s2: "sent (snd r2) = Some (200, MessageBody (butlast arrayField @ '' item deleted successfully''))"
      by (simp add: run2)
    show ?thesis
      using True found2 arr2 nth s2 diff sent1
      unfolding Let_def h_def[symmetric] ys_def[symmetric] church'_def[symmetric]
        church''_def[symmetric] r1_def[symmetric] r2_def[symmetric] zs_def[symmetric]
      by simp
  next
    case False
    then have out: "i < 0 \<or> int (length ys) \<le> i" by simp
    have run2: "r2 = (None, \<lparr>churches = churches (snd r1),
                   sent = Some (400, ErrorBody (invalid_index_message indexParam)),
                   log = [FindById churchId]\<rparr>)"
      unfolding r2_def h_def
      using found1 arr1 idx out by (rule deleteNestedItem_out_of_range)
    show ?thesis
      using False sent1
      unfolding Let_def h_def[symmetric] ys_def[symmetric] church'_def[symmetric]
        r1_def[symmetric] r2_def[symmetric]
      by (simp add: run2 saves_def)
  qed
qed

theorem nested_deletion_not_idempotent_witness:
  "validate example_church
   \<and> parseInt ''1'' = Some 1
   \<and> churches (snd (run (deleteNestedItem example_id (Some ''1'') ''songs'' ''songIndex'')
        [example_church]))
       = [example_church\<lparr>songs := [JStr ''a'', JStr ''c''], version := 1\<rparr>]
   \<and> sent (snd (run (deleteNestedItem example_id (Some ''1'') ''songs'' ''songIndex'')
        [example_church]))
       = Some (200, MessageBody (butlast ''songs'' @ '' item deleted successfully''))
   \<and> churches (snd (run (deleteNestedItem example_id (Some ''1'') ''songs'' ''songIndex'')
        (churches (snd (run (deleteNestedItem example_id (Some ''1'') ''songs'' ''songIndex'')
           [example_church])))))
       = [example_church\<lparr>songs := [JStr ''a''], version := 2\<rparr>]
   \<and> sent (snd (run (deleteNestedItem example_id (Some ''1'') ''songs'' ''songIndex'')
        (churches (snd (run (deleteNestedItem example_id (Some ''1'') ''songs'' ''songIndex'')
           [example_church])))))
       = Some (200, MessageBody (butlast ''songs'' @ '' item deleted successfully''))
   \<and> parseInt ''2'' = Some 2
   \<and> sent (snd (run (deleteNestedItem example_id (Some ''2'') ''songs'' ''songIndex'')
        (churches (snd (run (deleteNestedItem example_id (Some ''2'') ''songs'' ''songIndex'')
           [example_church])))))
       = Some (400, ErrorBody (invalid_index_message ''songIndex''))
   \<and> churches (snd (run (deleteNestedItem example_id (Some ''2'') ''songs'' ''songIndex'')
        (churches (snd (run (deleteNestedItem example_id (Some ''2'') ''songs'' ''songIndex'')
           [example_church])))))
       = churches (snd (run (deleteNestedItem example_id (Some ''2'') ''songs'' ''songIndex'')
           [example_church]))"
proof -
  have h1: "''songs'' \<in> {''gallery'', ''songs'', ''oldServices'', ''liveServices''}" by simp
  have h2: "findById [example_church] example_id = Inr (Some example_church)" by code_simp
  have h3: "validate example_church" by code_simp
  have h4: "field_value example_church ''songs'' = JArr [JStr ''a'', JStr ''b'', JStr ''c'']"
    by code_simp
  have p1: "parseInt ''1'' = Some 1" by code_simp
  have p2: "parseInt ''2'' = Some 2" by code_simp
  have once: "churches (snd (run (deleteNestedItem example_id (Some ''1'') ''songs'' ''songIndex'')
        [example_church]))
       = [example_church\<lparr>songs := [JStr ''a'', JStr ''c''], version := 1\<rparr>]"
    by code_simp
  have twice: "churches (snd (run (deleteNestedItem example_id (Some ''1'') ''songs'' ''songIndex'')
        (churches (snd (run (deleteNestedItem example_id (Some ''1'') ''songs'' ''songIndex'')
           [example_church])))))
       = [example_church\<lparr>songs := [JStr ''a''], version := 2\<rparr>]"
    by code_simp
  note first =
    nested_deletion_not_idempotent
      [where indexParam = "''songIndex''" and i = 1, OF h1 h2 h3 h4 p1, unfolded Let_def]
  note last =
    nested_deletion_not_idempotent
      [where indexParam = "''songIndex''" and i = 2, OF h1 h2 h3 h4 p2, unfolded Let_def]
  have b1: "(1::int) < int (length (take (nat 1) [JStr ''a'', JStr ''b'', JStr ''c'']
                                     @ drop (Suc (nat 1)) [JStr ''a'', JStr ''b'', JStr ''c'']))"
    by simp
  have b2: "int (length (take (nat 2) [JStr ''a'', JStr ''b'', JStr ''c'']
                          @ drop (Suc (nat 2)) [JStr ''a'', JStr ''b'', JStr ''c''])) \<le> 2"
    by simp
  have f: "sent (snd (run (deleteNestedItem example_id (Some ''1'') ''songs'' ''songIndex'')
        [example_church]))
       = Some (200, MessageBody (butlast ''songs'' @ '' item deleted successfully''))
     \<and> sent (snd (run (deleteNestedItem example_id (Some ''1'') ''songs'' ''songIndex'')
        (churches (snd (run (deleteNestedItem example_id (Some ''1'') ''songs'' ''songIndex'')
           [example_church])))))
       = Some (200, MessageBody (butlast ''songs'' @ '' item deleted successfully''))"
    using first b1 by simp
  have l: "sent (snd (run (deleteNestedItem example_id (Some ''2'') ''songs'' ''songIndex'')
        (churches (snd (run (deleteNestedItem example_id (Some ''2'') ''songs'' ''songIndex'')
           [example_church])))))
       = Some (400, ErrorBody (invalid_index_message ''songIndex''))
     \<and> churches (snd (run (deleteNestedItem example_id (Some ''2'') ''songs'' ''songIndex'')
        (churches (snd (run (deleteNestedItem example_id (Some ''2'') ''songs'' ''songIndex'')
           [example_church])))))
       = churches (snd (run (deleteNestedItem example_id (Some ''2'') ''songs'' ''songIndex'')
           [example_church]))"
    using last b2 by simp
  from h3 p1 p2 once twice f l show ?thesis by blast
qed

subsection \<open>An index that does not parse\<close>

text \<open>
  Claim C1. The claim asks that an index string that does not parse, or is out of bounds,
  gives 400 and no write. In \<open>deleteNestedItem\<close> the branch for an index that does not parse
  sends the 400 response and does not return: for a valid church with the songs \<open>[a, b, c]\<close>
  and the index string \<open>abc\<close> the handler goes on, \<open>splice(NaN, 1)\<close> removes the first
  song, and the document is saved; the last \<open>res.json\<close> then raises.
\<close>

theorem unparsable_index_still_writes:
  "index_of_param (Some ''abc'') = None
   \<and> validate example_church
   \<and> run (delete_song example_id (Some ''abc'')) [example_church] =
       (Some UnexpectedError,
        \<lparr>churches = [example_church\<lparr>songs := [JStr ''b'', JStr ''c''], version := 1\<rparr>],
         sent = Some (400, ErrorBody ''Invalid song index''),
         log = [FindById example_id, Save example_id [''songs'']]\<rparr>)"
  by code_simp

subsection \<open>The order of the checks\<close>

lemma member_array_truthy: "member v k = JArr xs \<Longrightarrow> truthy v"
  by (cases v) (simp_all add: member_def)

lemma unparsable_generic:
  "isNaN (index_of_param indexStr) \<Longrightarrow>
     sent (snd (run (deleteNestedItem churchId indexStr arrayField indexParam) coll))
       = Some (400, ErrorBody (invalid_index_message indexParam))"
  by (simp add: run_def deleteNestedItem_def andThen_def ChurchModel_findById_def json_def
      save_def Let_def split: sum.splits option.splits jsval.splits)

lemma unparsable_securities:
  "isNaN (index_of_param indexStr) \<Longrightarrow>
     sent (snd (run (delete_securities_item field Noun noun churchId indexStr) coll))
       = Some (400, ErrorBody (''Invalid '' @ noun @ '' index''))"
  by (simp add: run_def delete_securities_item_def andThen_def ChurchModel_findById_def
      json_def save_def Let_def split: sum.splits option.splits jsval.splits)

lemma parsed_generic:
  "\<not> isNaN (index_of_param indexStr) \<Longrightarrow>
     (case findById coll churchId of
        Inl err \<Rightarrow>
          run (deleteNestedItem churchId indexStr arrayField indexParam) coll
            = (Some err, \<lparr>churches = coll, sent = None, log = [FindById churchId]\<rparr>)
      | Inr None \<Rightarrow>
          run (deleteNestedItem churchId indexStr arrayField indexParam) coll
            = (None, \<lparr>churches = coll, sent = Some (404, ErrorBody ''Church not found''),
                      log = [FindById churchId]\<rparr>)
      | Inr (Some church) \<Rightarrow>
          (\<not> isArray (field_value church arrayField) \<longrightarrow>
             run (deleteNestedItem churchId indexStr arrayField indexParam) coll
               = (None, \<lparr>churches = coll,
                         sent = Some (500, ErrorBody ''Internal server error (invalid field type)''),
                         log = [FindById churchId]\<rparr>))
          \<and> (\<forall>xs. field_value church arrayField = JArr xs
                    \<and> (js_lt (index_of_param indexStr) 0
                        \<or> js_ge (index_of_param indexStr) (int (length xs))) \<longrightarrow>
                run (deleteNestedItem churchId indexStr arrayField indexParam) coll
                  = (None, \<lparr>churches = coll,
                            sent = Some (400, ErrorBody (invalid_index_message indexParam)),
                            log = [FindById churchId]\<rparr>)))"
  by (auto simp add: run_def deleteNestedItem_def andThen_def ChurchModel_findById_def json_def
      isArray_def split: sum.splits option.splits jsval.splits)

lemma parsed_securities:
  "\<not> isNaN (index_of_param indexStr) \<Longrightarrow>
     (case findById coll churchId of
        Inl err \<Rightarrow>
          run (delete_securities_item field Noun noun churchId indexStr) coll
            = (Some err, \<lparr>churches = coll, sent = None, log = [FindById churchId]\<rparr>)
      | Inr None \<Rightarrow>
          run (delete_securities_item field Noun noun churchId indexStr) coll
            = (None, \<lparr>churches = coll, sent = Some (404, ErrorBody ''Church not found''),
                      log = [FindById churchId]\<rparr>)
      | Inr (Some church) \<Rightarrow>
          (\<not> isArray (member (securities church) field) \<longrightarrow>
             run (delete_securities_item field Noun noun churchId indexStr) coll
               = (Some UnexpectedError,
                  \<lparr>churches = coll,
                   sent = Some (400, ErrorBody (Noun @ ''s data not found or invalid'')),
                   log = [FindById churchId]\<rparr>))
          \<and> (\<forall>xs. member (securities church) field = JArr xs
                    \<and> (js_lt (index_of_param indexStr) 0
                        \<or> js_ge (index_of_param indexStr) (int (length xs))) \<longrightarrow>
                sent (snd (run (delete_securities_item field Noun noun churchId indexStr) coll))
                  = Some (400, ErrorBody (''Invalid '' @ noun @ '' index''))
                \<and> churches (snd (run (delete_securities_item field Noun noun churchId indexStr) coll))
                  = coll))"
  by (auto simp add: run_def delete_securities_item_def andThen_def ChurchModel_findById_def
      json_def save_def isArray_def Let_def dest: member_array_truthy
      split: sum.splits option.splits jsval.splits)

text \<open>
  Claim C2, as amended. The response of a nested deletion is decided by the first check
  that fails, in this order: (a) the index string parses to an integer, else 400 with the
  invalid-index message; (b) the church id is cast and looked up: when the cast fails the
  handler sends nothing and raises the cast error, which the error handler answers with 400
  and status \<open>fail\<close>, and when no church has the id the answer is 404; (c) the field holds
  an array, else 500 for the generic function and 400 (data not
  found or invalid) for deacons and trustees under \<open>securities\<close>; (d) the index is not
  negative and is below the length of the array, else 400 with the invalid-index message.
\<close>

theorem nested_deletion_first_failing_check:
  "(isNaN (index_of_param indexStr) \<longrightarrow>
      sent (snd (run (deleteNestedItem churchId indexStr arrayField indexParam) coll))
        = Some (400, ErrorBody (invalid_index_message indexParam))
      \<and> sent (snd (run (delete_securities_item field Noun noun churchId indexStr) coll))
        = Some (400, ErrorBody (''Invalid '' @ noun @ '' index'')))
   \<and> (\<not> isNaN (index_of_param indexStr) \<longrightarrow>
      (case findById coll churchId of
         Inl err \<Rightarrow>
           run (deleteNestedItem churchId indexStr arrayField indexParam) coll
             = (Some err, \<lparr>churches = coll, sent = None, log = [FindById churchId]\<rparr>)
           \<and> run (delete_securities_item field Noun noun churchId indexStr) coll
             = (Some err, \<lparr>churches = coll, sent = None, log = [FindById churchId]\<rparr>)
           \<and> sent (snd (catchAsync (deleteNestedItem churchId indexStr arrayField indexParam)
                           \<lparr>churches = coll, sent = None, log = []\<rparr>))
             = Some (400, Envelope ''fail'')
           \<and> sent (snd (catchAsync (delete_securities_item field Noun noun churchId indexStr)
                           \<lparr>churches = coll, sent = None, log = []\<rparr>))
             = Some (400, Envelope ''fail'')
       | Inr None \<Rightarrow>
           sent (snd (run (deleteNestedItem churchId indexStr arrayField indexParam) coll))
             = Some (404, ErrorBody ''Church not found'')
           \<and> sent (snd (run (delete_securities_item field Noun noun churchId indexStr) coll))
             = Some (404, ErrorBody ''Church not found'')
       | Inr (Some church) \<Rightarrow>
           (\<not> isArray (field_value church arrayField) \<longrightarrow>
              sent (snd (run (deleteNestedItem churchId indexStr arrayField indexParam) coll))
                = Some (500, ErrorBody ''Internal server error (invalid field type)''))
           \<and> (\<not> isArray (member (securities church) field) \<longrightarrow>
              sent (snd (run (delete_securities_item field Noun noun churchId indexStr) coll))
                = Some (400, ErrorBody (Noun @ ''s data not found or invalid'')))
           \<and> (\<forall>xs. field_value church arrayField = JArr xs
                    \<and> (js_lt (index_of_param indexStr) 0
                        \<or> js_ge (index_of_param indexStr) (int (length xs))) \<longrightarrow>
                sent (snd (run (deleteNestedItem churchId indexStr arrayField indexParam) coll))
                  = Some (400, ErrorBody (invalid_index_message indexParam)))
           \<and> (\<forall>xs. member (securities church) field = JArr xs
                    \<and> (js_lt (index_of_param indexStr) 0
                        \<or> js_ge (index_of_param indexStr) (int (length xs))) \<longrightarrow>
                sent (snd (run (delete_securities_item field Noun noun churchId indexStr) coll))
                  = Some (400, ErrorBody (''Invalid '' @ noun @ '' index'')))))"
proof (intro conjI impI)
  assume nan: "isNaN (index_of_param indexStr)"
  show "sent (snd (run (deleteNestedItem churchId indexStr arrayField indexParam) coll))
        = Some (400, ErrorBody (invalid_index_message indexParam))"
    using nan by (rule unparsable_generic)
  show "sent (snd (run (delete_securities_item field Noun noun churchId indexStr) coll))
        = Some (400, ErrorBody (''Invalid '' @ noun @ '' index''))"
    using nan by (rule unparsable_securities)
next
  assume num: "\<not> isNaN (index_of_param indexStr)"
  note g = parsed_generic [where coll = coll and churchId = churchId and arrayField = arrayField
               and indexParam = indexParam, OF num]
  note s = parsed_securities [where coll = coll and churchId = churchId and field = field
               and Noun = Noun and noun = noun, OF num]
  show "case findById coll churchId of
         Inl err \<Rightarrow>
           run (deleteNestedItem churchId indexStr arrayField indexParam) coll
             = (Some err, \<lparr>churches = coll, sent = None, log = [FindById churchId]\<rparr>)
           \<and> run (delete_securities_item field Noun noun churchId indexStr) coll
             = (Some err, \<lparr>churches = coll, sent = None, log = [FindById churchId]\<rparr>)
           \<and> sent (snd (catchAsync (deleteNestedItem churchId indexStr arrayField indexParam)
                           \<lparr>churches = coll, sent = None, log = []\<rparr>))
             = Some (400, Envelope ''fail'')
           \<and> sent (snd (catchAsync (delete_securities_item field Noun noun churchId indexStr)
                           \<lparr>churches = coll, sent = None, log = []\<rparr>))
             = Some (400, Envelope ''fail'')
       | Inr None \<Rightarrow>
           sent (snd (run (deleteNestedItem churchId indexStr arrayField indexParam) coll))
             = Some (404, ErrorBody ''Church not found'')
           \<and> sent (snd (run (delete_securities_item field Noun noun churchId indexStr) coll))
             = Some (404, ErrorBody ''Church not found'')
       | Inr (Some church) \<Rightarrow>
           (\<not> isArray (field_value church arrayField) \<longrightarrow>
              sent (snd (run (deleteNestedItem churchId indexStr arrayField indexParam) coll))
                = Some (500, ErrorBody ''Internal server error (invalid field type)''))
           \<and> (\<not> isArray (member (securities church) field) \<longrightarrow>
              sent (snd (run (delete_securities_item field Noun noun churchId indexStr) coll))
                = Some (400, ErrorBody (Noun @ ''s data not found or invalid'')))
           \<and> (\<forall>xs. field_value church arrayField = JArr xs
                    \<and> (js_lt (index_of_param indexStr) 0
                        \<or> js_ge (index_of_param indexStr) (int (length xs))) \<longrightarrow>
                sent (snd (run (deleteNestedItem churchId indexStr arrayField indexParam) coll))
                  = Some (400, ErrorBody (invalid_index_message indexParam)))
           \<and> (\<forall>xs. member (securities church) field = JArr xs
                    \<and> (js_lt (index_of_param indexStr) 0
                        \<or> js_ge (index_of_param indexStr) (int (length xs))) \<longrightarrow>
                sent (snd (run (delete_securities_item field Noun noun churchId indexStr) coll))
                  = Some (400, ErrorBody (''Invalid '' @ noun @ '' index'')))"
  proof (cases "findById coll churchId")
    case (Inl err)
    then have e: "err = CastError" by (simp add: findById_def split: option.splits)
    from Inl g s e show ?thesis
      by (simp add: run_def catchAsync_def globalErrorHandler_def json_def)
  next
    case (Inr found)
    show ?thesis
    proof (cases found)
      case None
      with Inr g s show ?thesis by simp
    next
      case (Some church)
      with Inr g s show ?thesis by simp
    qed
  qed
qed

theorem nested_deletion_first_failing_check_witness:
  "sent (snd (run (deleteNestedItem example_id (Some ''abc'') ''songs'' ''songIndex'') [example_church]))
     = Some (400, ErrorBody (invalid_index_message ''songIndex''))
   \<and> sent (snd (run (deleteNestedItem example_id (Some ''0'') ''songs'' ''songIndex'') []))
     = Some (404, ErrorBody ''Church not found'')
   \<and> sent (snd (run (deleteNestedItem example_id (Some ''0'') ''name'' ''nameIndex'')
        [example_church_bare]))
     = Some (500, ErrorBody ''Internal server error (invalid field type)'')
   \<and> sent (snd (run (delete_securities_item ''deacons'' ''Deacon'' ''deacon'' example_id (Some ''0''))
        [example_church_bare]))
     = Some (400, ErrorBody (''Deacon'' @ ''s data not found or invalid''))
   \<and> sent (snd (run (deleteNestedItem example_id (Some ''7'') ''songs'' ''songIndex'') [example_church]))
     = Some (400, ErrorBody (invalid_index_message ''songIndex''))
   \<and> sent (snd (run (delete_securities_item ''deacons'' ''Deacon'' ''deacon'' example_id (Some ''7''))
        [example_church]))
     = Some (400, ErrorBody (''Invalid '' @ ''deacon'' @ '' index''))
   \<and> sent (snd (catchAsync (deleteNestedItem ''abc'' (Some ''0'') ''songs'' ''songIndex'')
                   \<lparr>churches = [example_church], sent = None, log = []\<rparr>))
     = Some (400, Envelope ''fail'')"
proof -
  have nan: "isNaN (index_of_param (Some ''abc''))" by code_simp
  have fc: "findById [example_church] ''abc'' = Inl CastError" by code_simp
  have n0: "\<not> isNaN (index_of_param (Some ''0''))" by code_simp
  have n7: "\<not> isNaN (index_of_param (Some ''7''))" by code_simp
  have f0: "findById [] example_id = Inr None" by code_simp
  have f1: "findById [example_church] example_id = Inr (Some example_church)" by code_simp
  have f2: "findById [example_church_bare] example_id = Inr (Some example_church_bare)" by code_simp
  have a1: "\<not> isArray (field_value example_church_bare ''name'')" by code_simp
  have a2: "\<not> isArray (member (securities example_church_bare) ''deacons'')" by code_simp
  have s7: "field_value example_church ''songs'' = JArr [JStr ''a'', JStr ''b'', JStr ''c'']
            \<and> (js_lt (index_of_param (Some ''7'')) 0
                \<or> js_ge (index_of_param (Some ''7'')) (int (length [JStr ''a'', JStr ''b'', JStr ''c''])))"
    by code_simp
  have d7: "member (securities example_church) ''deacons'' = JArr [JStr ''d1'', JStr ''d2'']
            \<and> (js_lt (index_of_param (Some ''7'')) 0
                \<or> js_ge (index_of_param (Some ''7'')) (int (length [JStr ''d1'', JStr ''d2''])))"
    by code_simp
  have c1: "sent (snd (run (deleteNestedItem example_id (Some ''abc'') ''songs'' ''songIndex'')
              [example_church]))
            = Some (400, ErrorBody (invalid_index_message ''songIndex''))"
    using nested_deletion_first_failing_check
            [where indexStr = "Some ''abc''" and churchId = example_id and arrayField = "''songs''"
               and indexParam = "''songIndex''" and coll = "[example_church]",
             THEN conjunct1, rule_format, OF nan]
    by (rule conjunct1)
  note missing =
    nested_deletion_first_failing_check
      [where indexStr = "Some ''0''" and churchId = example_id and arrayField = "''songs''"
         and indexParam = "''songIndex''" and coll = "[]",
       THEN conjunct2, rule_format, OF n0, unfolded f0, simplified]
  note bare =
    nested_deletion_first_failing_check
      [where indexStr = "Some ''0''" and churchId = example_id and arrayField = "''name''"
         and indexParam = "''nameIndex''" and coll = "[example_church_bare]"
         and field = "''deacons''" and Noun = "''Deacon''" and noun = "''deacon''",
       THEN conjunct2, rule_format, OF n0, unfolded f2 sum.case option.case]
  note full =
    nested_deletion_first_failing_check
      [where indexStr = "Some ''7''" and churchId = example_id and arrayField = "''songs''"
         and indexParam = "''songIndex''" and coll = "[example_church]"
         and field = "''deacons''" and Noun = "''Deacon''" and noun = "''deacon''",
       THEN conjunct2, rule_format, OF n7, unfolded f1 sum.case option.case]
  have c2: "sent (snd (run (deleteNestedItem example_id (Some ''0'') ''songs'' ''songIndex'') []))
            = Some (404, ErrorBody ''Church not found'')"
    using missing by blast
  have c3: "sent (snd (run (deleteNestedItem example_id (Some ''0'') ''name'' ''nameIndex'')
              [example_church_bare]))
            = Some (500, ErrorBody ''Internal server error (invalid field type)'')"
    using bare a1 by blast
  have c4: "sent (snd (run (delete_securities_item ''deacons'' ''Deacon'' ''deacon'' example_id
              (Some ''0'')) [example_church_bare]))
            = Some (400, ErrorBody (''Deacon'' @ ''s data not found or invalid''))"
    using bare a2 by blast
  have c5: "sent (snd (run (deleteNestedItem example_id (Some ''7'') ''songs'' ''songIndex'')
              [example_church]))
            = Some (400, ErrorBody (invalid_index_message ''songIndex''))"
    using full s7 by blast
  have c6: "sent (snd (run (delete_securities_item ''deacons'' ''Deacon'' ''deacon'' example_id
              (Some ''7'')) [example_church]))
            = Some (400, ErrorBody (''Invalid '' @ ''deacon'' @ '' index''))"
    using full d7 by blast
  note cast =
    nested_deletion_first_failing_check
      [where indexStr = "Some ''0''" and churchId = "''abc''" and arrayField = "''songs''"
         and indexParam = "''songIndex''" and coll = "[example_church]",
       THEN conjunct2, rule_format, OF n0, unfolded fc sum.case]
  have c7: "sent (snd (catchAsync (deleteNestedItem ''abc'' (Some ''0'') ''songs'' ''songIndex'')
                         \<lparr>churches = [example_church], sent = None, log = []\<rparr>))
            = Some (400, Envelope ''fail'')"
    using cast by blast
  from c1 c2 c3 c4 c5 c6 c7 show ?thesis by blast
qed

text \<open>
  Claim C2 as stated has the sign of the index checked in (a), before the lookup, and answers
  404 whenever the church is missing. The index string \<open>-1\<close> parses to \<open>- 1\<close>, which is not a
  non-negative integer, and for a church that does not exist the answer is 404, not 400. The
  id \<open>abc\<close> names no church and cannot be cast: the lookup raises, the handler sends nothing,
  and the error handler answers 400, not 404.
\<close>

theorem negative_index_is_checked_after_lookup:
  "parseInt ''-1'' = Some (- 1)
   \<and> run (delete_song example_id (Some ''-1'')) [] =
       (None, \<lparr>churches = [], sent = Some (404, ErrorBody ''Church not found''),
               log = [FindById example_id]\<rparr>)
   \<and> castObjectId ''abc'' = None
   \<and> run (delete_song ''abc'' (Some ''0'')) [example_church] =
       (Some CastError, \<lparr>churches = [example_church], sent = None, log = [FindById ''abc'']\<rparr>)
   \<and> sent (snd (catchAsync (delete_song ''abc'' (Some ''0''))
                   \<lparr>churches = [example_church], sent = None, log = []\<rparr>))
       = Some (400, Envelope ''fail'')"
  by code_simp

section \<open>Properties of authentication and authorisation\<close>

lemma split_on_no_sep: "sep \<notin> set w \<Longrightarrow> split_on sep w = [w]"
  by (induction w) auto

lemma header_token_Bearer:
  "CHR '' '' \<notin> set tok \<Longrightarrow> header_token (Some (''Bearer '' @ tok)) = Some tok"
  by (simp add: header_token_def startsWith_def split_on_no_sep)

lemma findByIdAndUpdate_admin_found:
  "User_findById users i = Some u \<Longrightarrow>
     User_findById (snd (findByIdAndUpdate_admin users i)) i = Some (u\<lparr>admin := True\<rparr>)"
  by (induction users) (auto simp: User_findById_def split: prod.splits)

text \<open>
  Claim C10. For every request that passes \<open>authenticateUser\<close>, whatever the church id and the
  index, the banner route answers 501, reads no church document and saves none: the store
  access log of the handler is empty and the collection is the one it started with.
\<close>

theorem banner_deletion_not_implemented:
  "fst (authenticateUser verify users authorization) = Inr ru \<Longrightarrow>
     authenticated_route verify users authorization (delete_banner churchId imageIndex) coll =
       Handled (None, \<lparr>churches = coll,
                        sent = Some (501, MessageBody ''Banner deletion not implemented yet''),
                        log = []\<rparr>)"
  by (simp add: authenticated_route_def run_def delete_banner_def json_def)

lemma expired_branch_unreachable:
  "message (verify_failure err) \<noteq> ''Your token has expired. Please log in again.''"
  by (cases err)
     (simp_all add: verify_failure_def instanceof_JsonWebTokenError_def
        instanceof_TokenExpiredError_def)

text \<open>
  Claim C4. The claim asks for a distinct outcome for an expired credential. The handler tests
  \<open>instanceof JsonWebTokenError\<close> before \<open>instanceof TokenExpiredError\<close>, and an expired
  token's error is an instance of both: the request is answered with the invalid-token
  message, and the branch with the expired message is never taken.
\<close>

theorem expired_token_reported_as_invalid:
  "authenticateUser (\<lambda>token. Throws TokenExpiredError) [example_user] (Some ''Bearer abc.def.ghi'') =
     (Inl \<lparr>message = ''Invalid token. Please log in again.'', statusCode = 401\<rparr>,
      [JwtVerify ''abc.def.ghi''])"
  by code_simp

text \<open>
  Claim C5, as amended. A request without an Authorization header is rejected with 401 and
  the not-logged-in message before any verification or store read is made, and so is every
  request whose header does not begin with \<open>Bearer\<close> and a space, except a header that
  begins with \<open>Bearer\<close> and has a non-empty second piece when split at spaces. The result
  of a rejected request does not depend on the verifier, and its list of verifications and
  reads is empty. For the excepted headers the second piece is handed to the verifier.
\<close>

theorem missing_bearer_is_unauthenticated:
  "authenticateUser verify users None =
     (Inl \<lparr>message = ''You are not logged in. Please log in to get access.'', statusCode = 401\<rparr>, [])
   \<and> (\<not> startsWith h ''Bearer ''
       \<and> (\<not> startsWith h ''Bearer''
           \<or> length (split_on CHR '' '' h) \<le> 1
           \<or> split_on CHR '' '' h ! 1 = []) \<longrightarrow>
        authenticateUser verify users (Some h) =
          (Inl \<lparr>message = ''You are not logged in. Please log in to get access.'',
                statusCode = 401\<rparr>, []))
   \<and> (startsWith h ''Bearer''
       \<and> 1 < length (split_on CHR '' '' h)
       \<and> split_on CHR '' '' h ! 1 \<noteq> [] \<longrightarrow>
        hd (snd (authenticateUser verify users (Some h))) = JwtVerify (split_on CHR '' '' h ! 1))"
proof (intro conjI impI)
  show "authenticateUser verify users None =
     (Inl \<lparr>message = ''You are not logged in. Please log in to get access.'', statusCode = 401\<rparr>, [])"
    by (simp add: authenticateUser_def header_token_def)
next
  assume a: "\<not> startsWith h ''Bearer ''
       \<and> (\<not> startsWith h ''Bearer''
           \<or> length (split_on CHR '' '' h) \<le> 1
           \<or> split_on CHR '' '' h ! 1 = [])"
  then have "header_token (Some h) = None \<or> header_token (Some h) = Some []"
    by (auto simp add: header_token_def Let_def)
  then show "authenticateUser verify users (Some h) =
          (Inl \<lparr>message = ''You are not logged in. Please log in to get access.'',
                statusCode = 401\<rparr>, [])"
    by (auto simp add: authenticateUser_def)
next
  assume a: "startsWith h ''Bearer''
       \<and> 1 < length (split_on CHR '' '' h)
       \<and> split_on CHR '' '' h ! 1 \<noteq> []"
  then have "h \<noteq> []" by (auto simp add: startsWith_def)
  with a have t: "header_token (Some h) = Some (split_on CHR '' '' h ! 1)"
    by (simp add: header_token_def Let_def)
  show "hd (snd (authenticateUser verify users (Some h))) = JwtVerify (split_on CHR '' '' h ! 1)"
    unfolding authenticateUser_def t using a
    by (simp split: verify_result.splits decoded.splits option.splits)
qed

theorem missing_bearer_is_unauthenticated_witness:
  "authenticateUser (\<lambda>token. Verified (DecodedPayload (Some (user_id example_user)) []))
        [example_user] (Some ''Basic dXNlcjpwYXNz'') =
       (Inl \<lparr>message = ''You are not logged in. Please log in to get access.'',
             statusCode = 401\<rparr>, [])
   \<and> authenticateUser (\<lambda>token. Verified (DecodedPayload (Some (user_id example_user)) []))
        [example_user] (Some ''Bearer'') =
       (Inl \<lparr>message = ''You are not logged in. Please log in to get access.'',
             statusCode = 401\<rparr>, [])
   \<and> authenticateUser (\<lambda>token. Verified (DecodedPayload (Some (user_id example_user)) []))
        [example_user] (Some ''BearerX'') =
       (Inl \<lparr>message = ''You are not logged in. Please log in to get access.'',
             statusCode = 401\<rparr>, [])
   \<and> hd (snd (authenticateUser (\<lambda>token. Verified (DecodedPayload (Some (user_id example_user)) []))
        [example_user] (Some ''Bearer abc.def.ghi''))) = JwtVerify ''abc.def.ghi''"
proof -
  have h1: "\<not> startsWith ''Basic dXNlcjpwYXNz'' ''Bearer ''
            \<and> (\<not> startsWith ''Basic dXNlcjpwYXNz'' ''Bearer''
                \<or> length (split_on CHR '' '' ''Basic dXNlcjpwYXNz'') \<le> 1
                \<or> split_on CHR '' '' ''Basic dXNlcjpwYXNz'' ! 1 = [])"
    by (simp add: startsWith_def)
  have h2: "\<not> startsWith ''Bearer'' ''Bearer ''
            \<and> (\<not> startsWith ''Bearer'' ''Bearer''
                \<or> length (split_on CHR '' '' ''Bearer'') \<le> 1
                \<or> split_on CHR '' '' ''Bearer'' ! 1 = [])"
    by (simp add: startsWith_def)
  have h3: "\<not> startsWith ''BearerX'' ''Bearer ''
            \<and> (\<not> startsWith ''BearerX'' ''Bearer''
                \<or> length (split_on CHR '' '' ''BearerX'') \<le> 1
                \<or> split_on CHR '' '' ''BearerX'' ! 1 = [])"
    by (simp add: startsWith_def)
  have h4: "startsWith ''Bearer abc.def.ghi'' ''Bearer''
            \<and> 1 < length (split_on CHR '' '' ''Bearer abc.def.ghi'')
            \<and> split_on CHR '' '' ''Bearer abc.def.ghi'' ! 1 \<noteq> []"
    by (simp add: startsWith_def)
  have p4: "split_on CHR '' '' ''Bearer abc.def.ghi'' ! 1 = ''abc.def.ghi''"
    by simp
  note rejects =
    missing_bearer_is_unauthenticated
      [where verify = "\<lambda>token. Verified (DecodedPayload (Some (user_id example_user)) [])"
         and users = "[example_user]", THEN conjunct2, THEN conjunct1, rule_format]
  note verifies =
    missing_bearer_is_unauthenticated
      [where verify = "\<lambda>token. Verified (DecodedPayload (Some (user_id example_user)) [])"
         and users = "[example_user]" and h = "''Bearer abc.def.ghi''",
       THEN conjunct2, THEN conjunct2, rule_format, OF h4, unfolded p4]
  from rejects [OF h1] rejects [OF h2] rejects [OF h3] verifies show ?thesis by blast
qed

text \<open>
  Claim C5 as stated fails for a header that begins with \<open>Bearer\<close> but not with \<open>Bearer\<close>
  and a space: the token after the first space is verified and the request is authenticated.
\<close>

theorem bearer_prefix_without_space_is_accepted:
  "\<not> startsWith ''BearerX tok'' ''Bearer ''
   \<and> authenticateUser (\<lambda>token. Verified (DecodedPayload (Some (user_id example_user)) []))
        [example_user] (Some ''BearerX tok'') =
       (Inr \<lparr>ru_id = user_id example_user, ru_email = email example_user\<rparr>,
        [JwtVerify ''tok'', UserFindById (user_id example_user)])"
  by code_simp


lemma User_findById_id: "User_findById users i = Some u \<Longrightarrow> user_id u = i"
  by (auto simp: User_findById_def find_Some_iff)

lemma snd_approveUser: "snd (approveUser users i) = snd (findByIdAndUpdate_admin users i)"
  by (simp add: approveUser_def split: prod.splits option.splits)

lemma authenticateUser_verified:
  assumes "verify token = Verified (DecodedPayload (Some i) claims)"
      and "token \<noteq> []" and "CHR '' '' \<notin> set token"
      and "User_findById users i = Some u"
  shows "authenticateUser verify users (Some (''Bearer '' @ token)) =
           (Inr \<lparr>ru_id = i, ru_email = email u\<rparr>, [JwtVerify token, UserFindById i])"
proof -
  have ht: "header_token (Some (''Bearer '' @ token)) = Some token"
    using assms(3) by (rule header_token_Bearer)
  have "user_id u = i" using assms(4) by (rule User_findById_id)
  then show ?thesis
    unfolding authenticateUser_def ht using assms(1,2,4) by simp
qed

text \<open>
  Claim C6. For an authenticated identity, \<open>isAdmin\<close> reads the user by the authenticated id and
  decides from the stored record alone: no user gives 401, a false flag gives 403, a true flag
  lets the request through. A token verified to the id of an existing user, whatever else it
  carries, passes authentication and the check exactly when the stored flag is true; after
  \<open>approveUser\<close> has set the flag, the same token passes.
\<close>

theorem elevation_check_reads_stored_flag:
  "(ru_id ru \<noteq> [] \<longrightarrow>
      isAdmin users (Some ru) =
        ((case User_findById users (ru_id ru) of
            None \<Rightarrow> Inl \<lparr>message = ''User not found.'', statusCode = 401\<rparr>
          | Some u \<Rightarrow>
              if admin u then Inr ()
              else Inl \<lparr>message = ''You do not have permission to perform this action.'',
                        statusCode = 403\<rparr>),
         [UserFindById (ru_id ru)]))
   \<and> (verify token = Verified (DecodedPayload (Some i) claims) \<and> token \<noteq> []
        \<and> CHR '' '' \<notin> set token \<and> i \<noteq> [] \<and> User_findById users i = Some u \<longrightarrow>
        admin_router_gate verify users (Some (''Bearer '' @ token)) =
          (if admin u then Inr ()
           else Inl \<lparr>message = ''You do not have permission to perform this action.'',
                     statusCode = 403\<rparr>)
        \<and> admin_router_gate verify (snd (approveUser users i)) (Some (''Bearer '' @ token)) = Inr ())"
proof (intro conjI impI)
  assume "ru_id ru \<noteq> []"
  then show "isAdmin users (Some ru) =
        ((case User_findById users (ru_id ru) of
            None \<Rightarrow> Inl \<lparr>message = ''User not found.'', statusCode = 401\<rparr>
          | Some u \<Rightarrow>
              if admin u then Inr ()
              else Inl \<lparr>message = ''You do not have permission to perform this action.'',
                        statusCode = 403\<rparr>),
         [UserFindById (ru_id ru)])"
    by (simp add: isAdmin_def split: option.splits)
next
  assume a: "verify token = Verified (DecodedPayload (Some i) claims) \<and> token \<noteq> []
        \<and> CHR '' '' \<notin> set token \<and> i \<noteq> [] \<and> User_findById users i = Some u"
  then have v: "verify token = Verified (DecodedPayload (Some i) claims)"
    and ne: "token \<noteq> []" and sp: "CHR '' '' \<notin> set token"
    and fu: "User_findById users i = Some u"
    by simp_all
  have auth: "authenticateUser verify users (Some (''Bearer '' @ token)) =
           (Inr \<lparr>ru_id = i, ru_email = email u\<rparr>, [JwtVerify token, UserFindById i])"
    by (rule authenticateUser_verified [where verify = verify and token = token, OF v ne sp fu])
  show "admin_router_gate verify users (Some (''Bearer '' @ token)) =
          (if admin u then Inr ()
           else Inl \<lparr>message = ''You do not have permission to perform this action.'',
                     statusCode = 403\<rparr>)"
    unfolding admin_router_gate_def auth using a by (simp add: isAdmin_def)
next
  assume a: "verify token = Verified (DecodedPayload (Some i) claims) \<and> token \<noteq> []
        \<and> CHR '' '' \<notin> set token \<and> i \<noteq> [] \<and> User_findById users i = Some u"
  define users' where "users' = snd (approveUser users i)"
  have f: "User_findById users' i = Some (u\<lparr>admin := True\<rparr>)"
    using a by (simp add: users'_def snd_approveUser findByIdAndUpdate_admin_found)
  from a have v: "verify token = Verified (DecodedPayload (Some i) claims)"
    and ne: "token \<noteq> []" and sp: "CHR '' '' \<notin> set token"
    by simp_all
  have auth: "authenticateUser verify users' (Some (''Bearer '' @ token)) =
           (Inr \<lparr>ru_id = i, ru_email = email (u\<lparr>admin := True\<rparr>)\<rparr>, [JwtVerify token, UserFindById i])"
    by (rule authenticateUser_verified [where verify = verify and token = token, OF v ne sp f])
  show "admin_router_gate verify (snd (approveUser users i)) (Some (''Bearer '' @ token)) = Inr ()"
    unfolding users'_def[symmetric] admin_router_gate_def auth
    using a f by (simp add: isAdmin_def)
qed

theorem elevation_check_reads_stored_flag_witness:
  "isAdmin [example_user] (Some \<lparr>ru_id = user_id example_user, ru_email = email example_user\<rparr>)
     = (Inl \<lparr>message = ''You do not have permission to perform this action.'', statusCode = 403\<rparr>,
        [UserFindById (user_id example_user)])
   \<and> admin_router_gate (\<lambda>t. Verified (DecodedPayload (Some (user_id example_user)) [(''admin'', JBool False)]))
     [example_user] (Some ''Bearer abc.def.ghi'')
     = Inl \<lparr>message = ''You do not have permission to perform this action.'', statusCode = 403\<rparr>
   \<and> admin_router_gate (\<lambda>t. Verified (DecodedPayload (Some (user_id example_user)) [(''admin'', JBool False)]))
     (snd (approveUser [example_user] (user_id example_user))) (Some ''Bearer abc.def.ghi'')
     = Inr ()"
proof -
  have h: "(\<lambda>t. Verified (DecodedPayload (Some (user_id example_user)) [(''admin'', JBool False)]))
             ''abc.def.ghi''
           = Verified (DecodedPayload (Some (user_id example_user)) [(''admin'', JBool False)])
        \<and> ''abc.def.ghi'' \<noteq> [] \<and> CHR '' '' \<notin> set ''abc.def.ghi''
        \<and> user_id example_user \<noteq> []
        \<and> User_findById [example_user] (user_id example_user) = Some example_user"
    by (simp add: User_findById_def example_user_def)
  have na: "\<not> admin example_user" by (simp add: example_user_def)
  have ne: "ru_id \<lparr>ru_id = user_id example_user, ru_email = email example_user\<rparr> \<noteq> []"
    by (simp add: example_user_def)
  have f: "User_findById [example_user] (user_id example_user) = Some example_user"
    by (simp add: User_findById_def)
  from elevation_check_reads_stored_flag
         [where ru = "\<lparr>ru_id = user_id example_user, ru_email = email example_user\<rparr>"
            and users = "[example_user]", THEN conjunct1, rule_format, OF ne] f na
  have a: "isAdmin [example_user] (Some \<lparr>ru_id = user_id example_user, ru_email = email example_user\<rparr>)
     = (Inl \<lparr>message = ''You do not have permission to perform this action.'', statusCode = 403\<rparr>,
        [UserFindById (user_id example_user)])"
    by simp
  from elevation_check_reads_stored_flag
         [where verify = "\<lambda>t. Verified (DecodedPayload (Some (user_id example_user)) [(''admin'', JBool False)])"
            and token = "''abc.def.ghi''" and i = "user_id example_user"
            and claims = "[(''admin'', JBool False)]" and users = "[example_user]"
            and u = example_user, THEN conjunct2, rule_format, OF h] na
  have b: "admin_router_gate (\<lambda>t. Verified (DecodedPayload (Some (user_id example_user)) [(''admin'', JBool False)]))
     [example_user] (Some ''Bearer abc.def.ghi'')
     = Inl \<lparr>message = ''You do not have permission to perform this action.'', statusCode = 403\<rparr>
   \<and> admin_router_gate (\<lambda>t. Verified (DecodedPayload (Some (user_id example_user)) [(''admin'', JBool False)]))
     (snd (approveUser [example_user] (user_id example_user))) (Some ''Bearer abc.def.ghi'')
     = Inr ()"
    by simp
  from a b show ?thesis by blast
qed

theorem banner_deletion_not_implemented_witness:
  "fst (authenticateUser (\<lambda>t. Verified (DecodedPayload (Some (user_id example_user)) []))
         [example_user] (Some ''Bearer abc.def.ghi''))
     = Inr \<lparr>ru_id = user_id example_user, ru_email = email example_user\<rparr>
   \<and> authenticated_route (\<lambda>t. Verified (DecodedPayload (Some (user_id example_user)) []))
       [example_user] (Some ''Bearer abc.def.ghi'') (delete_banner example_id (Some ''0''))
       [example_church] =
       Handled (None, \<lparr>churches = [example_church],
                        sent = Some (501, MessageBody ''Banner deletion not implemented yet''),
                        log = []\<rparr>)"
proof -
  have h: "fst (authenticateUser (\<lambda>t. Verified (DecodedPayload (Some (user_id example_user)) []))
         [example_user] (Some ''Bearer abc.def.ghi''))
     = Inr \<lparr>ru_id = user_id example_user, ru_email = email example_user\<rparr>"
    by code_simp
  from h banner_deletion_not_implemented [OF h] show ?thesis by blast
qed


section \<open>Properties of the public listing\<close>

lemma projection_fields: "split_on CHR '' '' ''_id name'' = [''_id'', ''name'']"
  by simp

lemma map_of_select_fields:
  "map_of (select_fields projection d) k =
     (if k \<in> set (split_on CHR '' '' projection) then map_of d k else None)"
  by (induction d) (auto simp: select_fields_def)

text \<open>
  Claim C9. Whatever the collection holds, the public listing has one element per stored
  church, and each element has the \<open>_id\<close> and \<open>name\<close> fields of its record and no other
  field. The handler takes nothing from the request, so the caller plays no part.
\<close>

theorem public_listing_only_id_and_name:
  "length (getPublicChurchList coll) = length coll
   \<and> (\<forall>d \<in> set (getPublicChurchList coll). \<forall>k \<in> fst ` set d. k = ''_id'' \<or> k = ''name'')
   \<and> (\<forall>n < length coll. \<forall>k.
         map_of (getPublicChurchList coll ! n) k =
           (if k = ''_id'' \<or> k = ''name'' then map_of (coll ! n) k else None))"
proof (intro conjI)
  show "length (getPublicChurchList coll) = length coll"
    by (simp add: getPublicChurchList_def ChurchModel_find_def)
  show "\<forall>d \<in> set (getPublicChurchList coll). \<forall>k \<in> fst ` set d. k = ''_id'' \<or> k = ''name''"
    unfolding getPublicChurchList_def ChurchModel_find_def select_fields_def projection_fields
    by auto
  show "\<forall>n < length coll. \<forall>k.
         map_of (getPublicChurchList coll ! n) k =
           (if k = ''_id'' \<or> k = ''name'' then map_of (coll ! n) k else None)"
    unfolding getPublicChurchList_def ChurchModel_find_def
    by (simp add: map_of_select_fields projection_fields del: split_on.simps)
qed

theorem public_listing_only_id_and_name_witness:
  "getPublicChurchList [toObject example_church]
     = [[(''_id'', JStr example_id), (''name'', JStr ''Grace Chapel'')]]
   \<and> map_of (getPublicChurchList [toObject example_church] ! 0) ''name'' = Some (JStr ''Grace Chapel'')
   \<and> map_of (getPublicChurchList [toObject example_church] ! 0) ''logo'' = None
   \<and> map_of (toObject example_church) ''logo'' = Some (JStr ''https://img.example/logo.png'')"
proof -
  have v: "getPublicChurchList [toObject example_church] =
             [[(''_id'', JStr example_id), (''name'', JStr ''Grace Chapel'')]]"
    by code_simp
  have n: "(0::nat) < length [toObject example_church]" by simp
  note fields = public_listing_only_id_and_name
                  [of "[toObject example_church]", THEN conjunct2, THEN conjunct2, rule_format, OF n]
  have nm: "map_of (toObject example_church) ''name'' = Some (JStr ''Grace Chapel'')" by code_simp
  have a: "map_of (getPublicChurchList [toObject example_church] ! 0) ''name''
             = Some (JStr ''Grace Chapel'')"
    using fields [of "''name''"] nm by simp
  have b: "map_of (getPublicChurchList [toObject example_church] ! 0) ''logo'' = None"
    using fields [of "''logo''"] by simp
  have c: "map_of (toObject example_church) ''logo'' = Some (JStr ''https://img.example/logo.png'')"
    by code_simp
  from v a b c show ?thesis by blast
qed

section \<open>Properties of the signup validation\<close>

text \<open>Facts about the schemas of the single fields: a field that is not valid comes with an
  issue, and the issues of a field carry the path of that field.\<close>

lemma string_field_cases:
  "(\<exists>s. v = JStr s \<and> zod_check ok msg p (zod_string re p v) =
            (if ok s then (Valid, JStr s, []) else (Dirty, JStr s, [\<lparr>issue_path = p, issue_message = msg\<rparr>])))
   \<or> (\<not> is_string v \<and> fst (zod_check ok msg p (zod_string re p v)) = Aborted
       \<and> snd (snd (zod_check ok msg p (zod_string re p v))) \<noteq> []
       \<and> (\<forall>i \<in> set (snd (snd (zod_check ok msg p (zod_string re p v)))). issue_path i = p))"
  by (cases v) (simp_all add: zod_string_def zod_check_def is_string_def)

lemma string_field_ok:
  "ok s \<Longrightarrow> zod_check ok msg p (zod_string re p (JStr s)) = (Valid, JStr s, [])"
  by (simp add: zod_string_def zod_check_def)

lemma string_field_sound:
  "fst (zod_check ok msg p (zod_string re p v)) = Valid
   \<or> snd (snd (zod_check ok msg p (zod_string re p v))) \<noteq> []"
  using string_field_cases [of v ok msg p re] by (auto split: if_splits)

lemma string_field_paths:
  "i \<in> set (snd (snd (zod_check ok msg p (zod_string re p v)))) \<Longrightarrow> issue_path i = p"
  using string_field_cases [of v ok msg p re] by (auto split: if_splits)

lemma string_field_typed:
  "is_string v \<Longrightarrow> fst (zod_check ok msg p (zod_string re p v)) \<noteq> Aborted"
  using string_field_cases [of v ok msg p re] by (auto split: if_splits)

lemma zod_enum_sound:
  "fst (zod_enum vals re ite p v) = Valid \<or> snd (snd (zod_enum vals re ite p v)) \<noteq> []"
  by (cases v) (simp_all add: zod_enum_def)

lemma zod_enum_paths: "i \<in> set (snd (snd (zod_enum vals re ite p v))) \<Longrightarrow> issue_path i = p"
  by (cases v) (auto simp: zod_enum_def split: if_splits)

lemma zod_enum_member: "s \<in> set vals \<Longrightarrow> zod_enum vals re ite p (JStr s) = (Valid, JStr s, [])"
  by (simp add: zod_enum_def)

lemma selection_blank:
  "blank_selection v \<Longrightarrow>
     zod_optional (\<lambda>q x. zod_trim (zod_string None q x)) p v = (Valid, v, []) \<and> v = JUndefined
     \<or> zod_optional (\<lambda>q x. zod_trim (zod_string None q x)) p v = (Valid, JStr [], [])"
  by (cases v) (simp_all add: blank_selection_def zod_optional_def zod_trim_def zod_string_def)

lemma selection_string:
  "v = JUndefined \<or> is_string v \<Longrightarrow>
     zod_optional (\<lambda>q x. zod_trim (zod_string None q x)) p v
       = (Valid, fst (snd (zod_optional (\<lambda>q x. zod_trim (zod_string None q x)) p v)), [])"
  by (cases v) (simp_all add: is_string_def zod_optional_def zod_trim_def zod_string_def)

lemma zod_object_JObj:
  "zod_object shape p (JObj kvs) =
     (merge_status (map (\<lambda>(k, schema). fst (schema (p @ [k]) (get_field kvs k))) shape),
      JObj (map (\<lambda>(k, schema). (k, fst (snd (schema (p @ [k]) (get_field kvs k))))) shape),
      concat (map (\<lambda>(k, schema). snd (snd (schema (p @ [k]) (get_field kvs k)))) shape))"
  by (simp add: zod_object_def Let_def case_prod_unfold comp_def)


lemma merge_status_cases:
  "merge_status sts = Aborted \<longleftrightarrow> Aborted \<in> set sts"
  "merge_status sts = Valid \<longleftrightarrow> (\<forall>st \<in> set sts. st = Valid)"
  by (auto simp: merge_status_def) (metis zstatus.exhaust)

lemma validateRequest_signup:
  "validateRequest (signupSchema is_email) body query params =
     (if fst (signup_body_schema is_email [''body''] body) = Valid then Inr ()
      else Inl (ZodError (snd (snd (signup_body_schema is_email [''body''] body)))))"
proof (cases "signup_body_schema is_email [''body''] body")
  case (fields st v iss)
  then show ?thesis
    by (cases st)
       (simp_all add: validateRequest_def signupSchema_def zod_object_JObj get_field_def
          merge_status_def)
qed

lemma signup_body_blank_selection:
  assumes role: "get_field kvs ''role'' \<in> {JStr ''pastor'', JStr ''IT''}"
      and blank: "blank_selection (get_field kvs ''churchSelection'')"
  shows "fst (signup_body_schema is_email [''body''] (JObj kvs)) \<noteq> Valid
         \<and> snd (snd (signup_body_schema is_email [''body''] (JObj kvs))) \<noteq> []
         \<and> (declared_types kvs \<longrightarrow>
              \<lparr>issue_path = [''body'', ''churchSelection''],
               issue_message = ''Church selection is required for pastors and IT.''\<rparr>
              \<in> set (snd (snd (signup_body_schema is_email [''body''] (JObj kvs)))))"
proof -
  define r1 where "r1 = zod_check (\<lambda>s. 1 \<le> length s) ''First name cannot be empty'' [''body'', ''firstName'']
     (zod_string (Some ''First name is required'') [''body'', ''firstName''] (get_field kvs ''firstName''))"
  define r2 where "r2 = zod_check (\<lambda>s. 1 \<le> length s) ''Last name cannot be empty'' [''body'', ''lastName'']
     (zod_string (Some ''Last name is required'') [''body'', ''lastName''] (get_field kvs ''lastName''))"
  define r3 where "r3 = zod_check is_email ''Invalid email address'' [''body'', ''email'']
     (zod_string (Some ''Email is required'') [''body'', ''email''] (get_field kvs ''email''))"
  define r4 where "r4 = zod_check (\<lambda>s. 8 \<le> length s) ''Password must be at least 8 characters long''
     [''body'', ''password'']
     (zod_string (Some ''Password is required'') [''body'', ''password''] (get_field kvs ''password''))"
  define r5 where "r5 = zod_enum [''en'', ''fr''] ''Language is required''
     (''Language must be either '' @ [CHR 0x27] @ ''en'' @ [CHR 0x27] @ '' or '' @ [CHR 0x27] @ ''fr'' @ [CHR 0x27])
     [''body'', ''language''] (get_field kvs ''language'')"
  define c where "c = fst (snd (zod_optional (\<lambda>q x. zod_trim (zod_string None q x))
                      [''body'', ''churchSelection''] (get_field kvs ''churchSelection'')))"
  define st where "st = merge_status [fst r1, fst r2, fst r3, fst r4, fst r5]"
  define val where "val = JObj [(''firstName'', fst (snd r1)), (''lastName'', fst (snd r2)),
     (''email'', fst (snd r3)), (''password'', fst (snd r4)), (''language'', fst (snd r5)),
     (''role'', get_field kvs ''role''), (''churchSelection'', c)]"
  define iss where "iss = snd (snd r1) @ snd (snd r2) @ snd (snd r3) @ snd (snd r4) @ snd (snd r5)"
  have r6: "zod_enum [''user'', ''pastor'', ''IT''] ''Role is required''
              ''Role must be one of: user, pastor, IT'' [''body'', ''role''] (get_field kvs ''role'')
            = (Valid, get_field kvs ''role'', [])"
    using role by (auto simp: zod_enum_member)
  have r7: "zod_optional (\<lambda>q x. zod_trim (zod_string None q x))
              [''body'', ''churchSelection''] (get_field kvs ''churchSelection'') = (Valid, c, [])"
    and cblank: "c = JUndefined \<or> c = JStr []"
    using selection_blank [OF blank, of "[''body'', ''churchSelection'']"] by (auto simp: c_def)
  have obj: "zod_object (signup_body_shape is_email) [''body''] (JObj kvs) = (st, val, iss)"
    by (simp add: zod_object_JObj signup_body_shape_def zod_min_def zod_email_def r6 r7
        st_def val_def iss_def r1_def r2_def r3_def r4_def r5_def merge_status_def)
  have rule: "\<not> church_selection_rule val"
    using role cblank by (auto simp: church_selection_rule_def val_def member_def get_field_def)
  have body: "signup_body_schema is_email [''body''] (JObj kvs) =
     (if st = Aborted then (Aborted, val, iss)
      else (Dirty, val, iss @ [\<lparr>issue_path = [''body'', ''churchSelection''],
               issue_message = ''Church selection is required for pastors and IT.''\<rparr>]))"
    by (simp add: signup_body_schema_def obj zod_refine_def rule)
  have sound: "st = Aborted \<Longrightarrow> iss \<noteq> []"
  proof -
    assume "st = Aborted"
    then have "fst r1 = Aborted \<or> fst r2 = Aborted \<or> fst r3 = Aborted \<or> fst r4 = Aborted
               \<or> fst r5 = Aborted"
      by (auto simp: st_def merge_status_cases)
    moreover have "fst r1 = Valid \<or> snd (snd r1) \<noteq> []" unfolding r1_def by (rule string_field_sound)
    moreover have "fst r2 = Valid \<or> snd (snd r2) \<noteq> []" unfolding r2_def by (rule string_field_sound)
    moreover have "fst r3 = Valid \<or> snd (snd r3) \<noteq> []" unfolding r3_def by (rule string_field_sound)
    moreover have "fst r4 = Valid \<or> snd (snd r4) \<noteq> []" unfolding r4_def by (rule string_field_sound)
    moreover have "fst r5 = Valid \<or> snd (snd r5) \<noteq> []" unfolding r5_def by (rule zod_enum_sound)
    ultimately show "iss \<noteq> []" by (auto simp: iss_def)
  qed
  have typed: "declared_types kvs \<Longrightarrow> st \<noteq> Aborted"
  proof -
    assume t: "declared_types kvs"
    have "fst r1 \<noteq> Aborted" unfolding r1_def using t by (intro string_field_typed) (simp add: declared_types_def)
    moreover have "fst r2 \<noteq> Aborted" unfolding r2_def using t by (intro string_field_typed) (simp add: declared_types_def)
    moreover have "fst r3 \<noteq> Aborted" unfolding r3_def using t by (intro string_field_typed) (simp add: declared_types_def)
    moreover have "fst r4 \<noteq> Aborted" unfolding r4_def using t by (intro string_field_typed) (simp add: declared_types_def)
    moreover have "fst r5 = Valid" unfolding r5_def using t by (auto simp: declared_types_def zod_enum_member)
    ultimately show "st \<noteq> Aborted" by (simp add: st_def merge_status_cases)
  qed
  show ?thesis using sound typed by (auto simp: body)
qed


lemma signup_body_user:
  assumes role: "get_field kvs ''role'' = JStr ''user''"
      and none: "get_field kvs ''churchSelection'' = JUndefined
                 \<or> is_string (get_field kvs ''churchSelection'')"
  shows "[''body'', ''churchSelection'']
           \<notin> issue_path ` set (snd (snd (signup_body_schema is_email [''body''] (JObj kvs))))
         \<and> (well_formed_fields is_email kvs \<longrightarrow>
              fst (signup_body_schema is_email [''body''] (JObj kvs)) = Valid)"
proof -
  define r1 where "r1 = zod_check (\<lambda>s. 1 \<le> length s) ''First name cannot be empty'' [''body'', ''firstName'']
     (zod_string (Some ''First name is required'') [''body'', ''firstName''] (get_field kvs ''firstName''))"
  define r2 where "r2 = zod_check (\<lambda>s. 1 \<le> length s) ''Last name cannot be empty'' [''body'', ''lastName'']
     (zod_string (Some ''Last name is required'') [''body'', ''lastName''] (get_field kvs ''lastName''))"
  define r3 where "r3 = zod_check is_email ''Invalid email address'' [''body'', ''email'']
     (zod_string (Some ''Email is required'') [''body'', ''email''] (get_field kvs ''email''))"
  define r4 where "r4 = zod_check (\<lambda>s. 8 \<le> length s) ''Password must be at least 8 characters long''
     [''body'', ''password'']
     (zod_string (Some ''Password is required'') [''body'', ''password''] (get_field kvs ''password''))"
  define r5 where "r5 = zod_enum [''en'', ''fr''] ''Language is required''
     (''Language must be either '' @ [CHR 0x27] @ ''en'' @ [CHR 0x27] @ '' or '' @ [CHR 0x27] @ ''fr'' @ [CHR 0x27])
     [''body'', ''language''] (get_field kvs ''language'')"
  define c where "c = fst (snd (zod_optional (\<lambda>q x. zod_trim (zod_string None q x))
                      [''body'', ''churchSelection''] (get_field kvs ''churchSelection'')))"
  define st where "st = merge_status [fst r1, fst r2, fst r3, fst r4, fst r5]"
  define val where "val = JObj [(''firstName'', fst (snd r1)), (''lastName'', fst (snd r2)),
     (''email'', fst (snd r3)), (''password'', fst (snd r4)), (''language'', fst (snd r5)),
     (''role'', JStr ''user''), (''churchSelection'', c)]"
  have r7: "zod_optional (\<lambda>q x. zod_trim (zod_string None q x))
              [''body'', ''churchSelection''] (get_field kvs ''churchSelection'') = (Valid, c, [])"
    unfolding c_def using none by (rule selection_string)
  define iss where "iss = snd (snd r1) @ snd (snd r2) @ snd (snd r3) @ snd (snd r4) @ snd (snd r5)"
  have obj: "zod_object (signup_body_shape is_email) [''body''] (JObj kvs) = (st, val, iss)"
    by (simp add: zod_object_JObj signup_body_shape_def zod_min_def zod_email_def role r7
        zod_enum_member
        st_def val_def iss_def r1_def r2_def r3_def r4_def r5_def merge_status_def)
  have rule: "church_selection_rule val"
    by (simp add: church_selection_rule_def val_def member_def get_field_def)
  have body: "signup_body_schema is_email [''body''] (JObj kvs) = (st, val, iss)"
    by (simp add: signup_body_schema_def obj zod_refine_def rule)
  have paths: "\<forall>i \<in> set iss. issue_path i \<in> {[''body'', ''firstName''], [''body'', ''lastName''],
      [''body'', ''email''], [''body'', ''password''], [''body'', ''language'']}"
  proof
    fix i assume "i \<in> set iss"
    then consider "i \<in> set (snd (snd r1))" | "i \<in> set (snd (snd r2))" | "i \<in> set (snd (snd r3))"
      | "i \<in> set (snd (snd r4))" | "i \<in> set (snd (snd r5))"
      by (auto simp: iss_def)
    then show "issue_path i \<in> {[''body'', ''firstName''], [''body'', ''lastName''],
      [''body'', ''email''], [''body'', ''password''], [''body'', ''language'']}"
    proof cases
      case 1 then have "issue_path i = [''body'', ''firstName'']"
        unfolding r1_def by (rule string_field_paths)
      then show ?thesis by simp
    next
      case 2 then have "issue_path i = [''body'', ''lastName'']"
        unfolding r2_def by (rule string_field_paths)
      then show ?thesis by simp
    next
      case 3 then have "issue_path i = [''body'', ''email'']"
        unfolding r3_def by (rule string_field_paths)
      then show ?thesis by simp
    next
      case 4 then have "issue_path i = [''body'', ''password'']"
        unfolding r4_def by (rule string_field_paths)
      then show ?thesis by simp
    next
      case 5 then have "issue_path i = [''body'', ''language'']"
        unfolding r5_def by (rule zod_enum_paths)
      then show ?thesis by simp
    qed
  qed
  have no: "[''body'', ''churchSelection''] \<notin> issue_path ` set iss"
    using paths by fastforce
  have ok: "well_formed_fields is_email kvs \<Longrightarrow> st = Valid"
  proof -
    assume w: "well_formed_fields is_email kvs"
    have "fst r1 = Valid"
      using w unfolding r1_def
      by (cases "get_field kvs ''firstName''") (simp_all add: well_formed_fields_def string_field_ok)
    moreover have "fst r2 = Valid"
      using w unfolding r2_def
      by (cases "get_field kvs ''lastName''") (simp_all add: well_formed_fields_def string_field_ok)
    moreover have "fst r3 = Valid"
      using w unfolding r3_def
      by (cases "get_field kvs ''email''") (simp_all add: well_formed_fields_def string_field_ok)
    moreover have "fst r4 = Valid"
      using w unfolding r4_def
      by (cases "get_field kvs ''password''") (simp_all add: well_formed_fields_def string_field_ok)
    moreover have "fst r5 = Valid"
      using w unfolding r5_def by (auto simp: well_formed_fields_def zod_enum_member)
    ultimately show "st = Valid" by (simp add: st_def merge_status_def)
  qed
  show ?thesis using no ok by (simp add: body)
qed


text \<open>
  Claim C7, as amended. For a signup body whose role is pastor or IT and whose church
  selection is missing or blank after trimming, validation fails with at least one issue and
  the controller is not run, so the user collection is unchanged; when the other fields have
  the types the schema declares, the issues include the one whose path is
  \<open>body.churchSelection\<close>. For the role \<open>user\<close>, whether the church selection is missing or is
  any string, blank or not, no issue has that path, and a body whose other fields are well
  formed passes validation.
\<close>

theorem signup_church_selection_rule:
  "(get_field kvs ''role'' \<in> {JStr ''pastor'', JStr ''IT''}
      \<and> blank_selection (get_field kvs ''churchSelection'') \<longrightarrow>
      (\<exists>iss. validateRequest (signupSchema is_email) (JObj kvs) query params = Inl (ZodError iss)
             \<and> iss \<noteq> []
             \<and> (declared_types kvs \<longrightarrow>
                  \<lparr>issue_path = [''body'', ''churchSelection''],
                   issue_message = ''Church selection is required for pastors and IT.''\<rparr> \<in> set iss))
      \<and> snd (signup_route is_email signup (JObj kvs) users) = users)
   \<and> (get_field kvs ''role'' = JStr ''user''
      \<and> (get_field kvs ''churchSelection'' = JUndefined
          \<or> is_string (get_field kvs ''churchSelection'')) \<longrightarrow>
      (\<forall>iss. validateRequest (signupSchema is_email) (JObj kvs) query params = Inl (ZodError iss)
             \<longrightarrow> [''body'', ''churchSelection''] \<notin> issue_path ` set iss)
      \<and> (well_formed_fields is_email kvs \<longrightarrow>
            validateRequest (signupSchema is_email) (JObj kvs) query params = Inr ()))"
proof (intro conjI impI)
  assume a: "get_field kvs ''role'' \<in> {JStr ''pastor'', JStr ''IT''}
      \<and> blank_selection (get_field kvs ''churchSelection'')"
  then have role: "get_field kvs ''role'' \<in> {JStr ''pastor'', JStr ''IT''}"
    and blank: "blank_selection (get_field kvs ''churchSelection'')" by simp_all
  note b = signup_body_blank_selection [OF role blank, of is_email]
  show "\<exists>iss. validateRequest (signupSchema is_email) (JObj kvs) query params = Inl (ZodError iss)
             \<and> iss \<noteq> []
             \<and> (declared_types kvs \<longrightarrow>
                  \<lparr>issue_path = [''body'', ''churchSelection''],
                   issue_message = ''Church selection is required for pastors and IT.''\<rparr> \<in> set iss)"
    using b by (simp add: validateRequest_signup)
  show "snd (signup_route is_email signup (JObj kvs) users) = users"
    using b by (simp add: signup_route_def validateRequest_signup)
next
  assume a: "get_field kvs ''role'' = JStr ''user''
      \<and> (get_field kvs ''churchSelection'' = JUndefined
          \<or> is_string (get_field kvs ''churchSelection''))"
  then have role: "get_field kvs ''role'' = JStr ''user''"
    and none: "get_field kvs ''churchSelection'' = JUndefined
               \<or> is_string (get_field kvs ''churchSelection'')" by simp_all
  note u = signup_body_user [OF role none, of is_email]
  show "\<forall>iss. validateRequest (signupSchema is_email) (JObj kvs) query params = Inl (ZodError iss)
             \<longrightarrow> [''body'', ''churchSelection''] \<notin> issue_path ` set iss"
    using u by (auto simp: validateRequest_signup split: if_splits)
  show "validateRequest (signupSchema is_email) (JObj kvs) query params = Inr ()"
    if "well_formed_fields is_email kvs"
    using u that by (simp add: validateRequest_signup)
qed

theorem signup_church_selection_rule_witness:
  "get_field example_signup ''role'' \<in> {JStr ''pastor'', JStr ''IT''}
   \<and> blank_selection (get_field example_signup ''churchSelection'')
   \<and> declared_types example_signup
   \<and> validateRequest (signupSchema (\<lambda>s. CHR ''@'' \<in> set s)) (JObj example_signup) (JObj []) (JObj [])
       = Inl (ZodError [\<lparr>issue_path = [''body'', ''churchSelection''],
                         issue_message = ''Church selection is required for pastors and IT.''\<rparr>])
   \<and> snd (signup_route (\<lambda>s. CHR ''@'' \<in> set s) (\<lambda>body users. ((), users @ [example_user]))
            (JObj example_signup) []) = []
   \<and> get_field example_signup_user ''role'' = JStr ''user''
   \<and> get_field example_signup_user ''churchSelection'' = JStr ''   ''
   \<and> well_formed_fields (\<lambda>s. CHR ''@'' \<in> set s) example_signup_user
   \<and> validateRequest (signupSchema (\<lambda>s. CHR ''@'' \<in> set s)) (JObj example_signup_user)
        (JObj []) (JObj []) = Inr ()"
proof -
  have h: "get_field example_signup ''role'' \<in> {JStr ''pastor'', JStr ''IT''}
           \<and> blank_selection (get_field example_signup ''churchSelection'')"
    by (simp add: example_signup_def get_field_def blank_selection_def trim_def is_ws_def)
  have t: "declared_types example_signup"
    by (simp add: example_signup_def get_field_def declared_types_def is_string_def)
  have v: "validateRequest (signupSchema (\<lambda>s. CHR ''@'' \<in> set s)) (JObj example_signup) (JObj []) (JObj [])
       = Inl (ZodError [\<lparr>issue_path = [''body'', ''churchSelection''],
                         issue_message = ''Church selection is required for pastors and IT.''\<rparr>])"
    by code_simp
  from signup_church_selection_rule
         [where kvs = example_signup and is_email = "\<lambda>s. CHR ''@'' \<in> set s"
            and signup = "\<lambda>body users. ((), users @ [example_user])" and users = "[]"
            and query = "JObj []" and params = "JObj []", THEN conjunct1, rule_format, OF h]
  have s: "snd (signup_route (\<lambda>s. CHR ''@'' \<in> set s) (\<lambda>body users. ((), users @ [example_user]))
            (JObj example_signup) []) = []"
    by blast
  have u0: "get_field example_signup_user ''role'' = JStr ''user''
            \<and> get_field example_signup_user ''churchSelection'' = JStr ''   ''"
    by (simp add: example_signup_user_def get_field_def)
  then have u: "get_field example_signup_user ''role'' = JStr ''user''
           \<and> (get_field example_signup_user ''churchSelection'' = JUndefined
               \<or> is_string (get_field example_signup_user ''churchSelection''))"
    by (simp add: is_string_def)
  have w: "well_formed_fields (\<lambda>s. CHR ''@'' \<in> set s) example_signup_user"
    by (simp add: example_signup_user_def get_field_def well_formed_fields_def)
  from signup_church_selection_rule
         [where kvs = example_signup_user and is_email = "\<lambda>s. CHR ''@'' \<in> set s"
            and query = "JObj []" and params = "JObj []", THEN conjunct2, rule_format, OF u] w
  have p: "validateRequest (signupSchema (\<lambda>s. CHR ''@'' \<in> set s)) (JObj example_signup_user)
        (JObj []) (JObj []) = Inr ()"
    by blast
  from h t v s u0 w p show ?thesis by blast
qed

text \<open>
  Claim C7 as stated promises the issue on the church selection for every such body. A body
  with role pastor, no church selection and no first name fails with the first-name issue
  only: the object is aborted by the missing field and the refinement is not checked.
\<close>

theorem missing_first_name_hides_church_selection_issue:
  "validateRequest (signupSchema (\<lambda>s. CHR ''@'' \<in> set s))
     (JObj [(''lastName'', JStr ''Lee''), (''email'', JStr ''ann@example.org''),
            (''password'', JStr ''correct horse''), (''language'', JStr ''en''),
            (''role'', JStr ''pastor'')]) (JObj []) (JObj [])
   = Inl (ZodError [\<lparr>issue_path = [''body'', ''firstName''],
                     issue_message = ''First name is required''\<rparr>])"
  by code_simp

end
